theory Spec2Isabelle
  imports Complex_Main "HOL-Library.Char_ord" "HOL-Library.List_Lexorder" "HOL-Library.Option_ord"
begin

section \<open>JavaScript strings and the slug generator\<close>

text \<open>
  A string is a list of code units. The model covers the code units below 256 (ASCII and
  Latin-1), which is what \<^typ>\<open>char\<close> holds. On these, \<open>\s\<close> of a regular
  expression matches tab, line feed, vertical tab, form feed, carriage return, space and
  the no-break space, and \<open>toLowerCase\<close> maps \<open>A-Z\<close> and the Latin-1 capitals
  (192 to 222 without the multiplication sign 215) to the code unit 32 above.
\<close>

definition is_space :: "char \<Rightarrow> bool" where
  "is_space c = (of_char c \<in> {9, 10, 11, 12, 13, 32, 160 :: nat})"

definition is_digit :: "char \<Rightarrow> bool" where
  "is_digit c = (let n = (of_char c :: nat) in 48 \<le> n \<and> n \<le> 57)"

definition is_lower_az :: "char \<Rightarrow> bool" where
  "is_lower_az c = (let n = (of_char c :: nat) in 97 \<le> n \<and> n \<le> 122)"

definition is_upper :: "char \<Rightarrow> bool" where
  "is_upper c = (let n = (of_char c :: nat) in
     (65 \<le> n \<and> n \<le> 90) \<or> (192 \<le> n \<and> n \<le> 222 \<and> n \<noteq> 215))"

fun set_bit5 :: "char \<Rightarrow> char" where
  "set_bit5 (Char b0 b1 b2 b3 b4 b5 b6 b7) = Char b0 b1 b2 b3 b4 True b6 b7"

definition lower_char :: "char \<Rightarrow> char" where
  "lower_char c = (if is_upper c then set_bit5 c else c)"

definition toLowerCase :: "string \<Rightarrow> string" where
  "toLowerCase s = map lower_char s"

text \<open>The character class \<open>[a-z0-9\s-]\<close>; the first replace of generateSlug deletes its complement.\<close>

definition is_slug_char :: "char \<Rightarrow> bool" where
  "is_slug_char c = (is_lower_az c \<or> is_digit c \<or> is_space c \<or> c = CHR ''-'')"

text \<open>
  \<open>s.replace(/X+/g, r)\<close> for a character class \<open>X\<close>: every maximal run of characters
  of the class is replaced by \<open>r\<close>.
\<close>

function replace_runs :: "(char \<Rightarrow> bool) \<Rightarrow> string \<Rightarrow> string \<Rightarrow> string" where
  "replace_runs p r [] = []"
| "replace_runs p r (c # cs) =
     (if p c then r @ replace_runs p r (dropWhile p cs) else c # replace_runs p r cs)"
  by pat_completeness auto
termination
  by (relation "measure (\<lambda>(p, r, s). length s)") (auto simp: length_dropWhile_le less_Suc_eq_le)

text \<open>\<open>s.replace(/^-|-$/g, '')\<close>: one hyphen at the start and one at the end are deleted.\<close>

definition strip_edge_hyphens :: "string \<Rightarrow> string" where
  "strip_edge_hyphens s =
     (let s1 = (case s of [] \<Rightarrow> [] | c # cs \<Rightarrow> if c = CHR ''-'' then cs else s)
      in if s1 \<noteq> [] \<and> last s1 = CHR ''-'' then butlast s1 else s1)"

definition generateSlug :: "string \<Rightarrow> string" where
  "generateSlug title =
     strip_edge_hyphens
       (replace_runs (\<lambda>c. c = CHR ''-'') ''-''
         (replace_runs is_space ''-''
           (filter is_slug_char (toLowerCase title))))"

text \<open>\<open>/rate\s*limit/i.test(s)\<close>: the pattern is searched at every position of \<open>s\<close>.\<close>

definition rate_limit_here :: "string \<Rightarrow> bool" where
  "rate_limit_here s =
     (toLowerCase (take 4 s) = ''rate'' \<and>
      toLowerCase (take 5 (dropWhile is_space (drop 4 s))) = ''limit'')"

fun rate_limit_test :: "string \<Rightarrow> bool" where
  "rate_limit_test [] = False"
| "rate_limit_test (c # cs) = (rate_limit_here (c # cs) \<or> rate_limit_test cs)"

text \<open>The anchored patterns of the schemas.\<close>

definition re_slug :: "string \<Rightarrow> bool" where
  \<comment> \<open>\<open>/^[a-z0-9-]+$/\<close>\<close>
  "re_slug s = (s \<noteq> [] \<and> list_all (\<lambda>c. is_lower_az c \<or> is_digit c \<or> c = CHR ''-'') s)"

definition re_sprint_code :: "string \<Rightarrow> bool" where
  \<comment> \<open>\<open>/^SPR-\d+$/\<close>\<close>
  "re_sprint_code s = (take 4 s = ''SPR-'' \<and> drop 4 s \<noteq> [] \<and> list_all is_digit (drop 4 s))"

definition re_cuid :: "string \<Rightarrow> bool" where
  \<comment> \<open>the pattern behind \<open>z.string().cuid()\<close>: \<open>/^c[^\s-]{8,}$/i\<close>\<close>
  "re_cuid s = (toLowerCase (take 1 s) = ''c'' \<and> 8 \<le> length (drop 1 s) \<and>
     list_all (\<lambda>c. \<not> is_space c \<and> c \<noteq> CHR ''-'') (drop 1 s))"

section \<open>Values, numbers and what the platform supplies\<close>

datatype jsnum = NaN | PosInf | NegInf | Fin rat

datatype jsval =
    Undefined
  | JNull
  | JBool bool
  | JNum rat
  | JStr string
  | JArr "jsval list"
  | JObj "(string \<times> jsval) list"

text \<open>Property access \<open>v[k]\<close>; a key written twice in a JSON text keeps its last value.\<close>

definition field :: "string \<Rightarrow> jsval \<Rightarrow> jsval" where
  "field k v = (case v of
      JObj kvs \<Rightarrow> (case map_of (rev kvs) k of Some x \<Rightarrow> x | None \<Rightarrow> Undefined)
    | _ \<Rightarrow> Undefined)"

text \<open>
  The columns of the documents table that an update sets; \<open>None\<close> leaves a column
  alone, and the slug may be set to null.
\<close>

record document_changes =
  dc_id :: "string option"
  dc_projectId :: "string option"
  dc_kind :: "string option"
  dc_title :: "string option"
  dc_content :: "string option"
  dc_slug :: "string option option"
  dc_createdAt :: "int option"
  dc_updatedAt :: "int option"

text \<open>
  What the handlers take from outside the repository. From the language and the
  validation library: \<open>Number(s)\<close> on a query-string value (behind
  \<open>z.coerce.number()\<close>), the pattern of \<open>z.string().datetime()\<close>, and the time value
  of \<open>new Date(s)\<close> in milliseconds (\<open>None\<close> for an invalid date). From the store:
  its clock, the identifiers it gives to new rows (\<open>fresh 0\<close>, \<open>fresh 1\<close>, ... within
  one request), the message of the errors its client raises other than known request
  errors (an argument of the wrong type, a failure of the store), the sprint items
  (text, checked, order) whose insert it refuses, and how its client reads the \<open>data\<close>
  argument of a document update: the columns to set, or \<open>None\<close> when it refuses the
  argument (a property that is no column, a value of the wrong type).
\<close>

record platform =
  js_Number :: "string \<Rightarrow> jsnum"
  zod_datetime :: "string \<Rightarrow> bool"
  js_Date :: "string \<Rightarrow> int option"
  now :: int
  fresh :: "nat \<Rightarrow> string"
  store_error_text :: string
  refuses_item :: "string \<Rightarrow> bool \<Rightarrow> int \<Rightarrow> bool"
  document_data :: "jsval \<Rightarrow> document_changes option"

section \<open>Schema validation\<close>

datatype zcode = invalid_type | too_small | too_big | invalid_string | invalid_enum_value

datatype seg = Key string | Idx nat

type_synonym issue = "seg list \<times> zcode"

type_synonym 'a parsed = "issue list + 'a"

definition issues_of :: "'a parsed \<Rightarrow> issue list" where
  "issues_of r = (case r of Inl is \<Rightarrow> is | Inr _ \<Rightarrow> [])"

definition at_path :: "seg \<Rightarrow> 'a parsed \<Rightarrow> 'a parsed" where
  "at_path k r = (case r of Inl is \<Rightarrow> Inl (map (\<lambda>(p, c). (k # p, c)) is) | Inr x \<Rightarrow> Inr x)"

definition z_min :: "nat \<Rightarrow> string \<Rightarrow> zcode list" where
  "z_min n s = (if length s < n then [too_small] else [])"

definition z_max :: "nat \<Rightarrow> string \<Rightarrow> zcode list" where
  "z_max n s = (if n < length s then [too_big] else [])"

definition z_regex :: "(string \<Rightarrow> bool) \<Rightarrow> string \<Rightarrow> zcode list" where
  "z_regex re s = (if re s then [] else [invalid_string])"

text \<open>\<open>z.string()\<close> followed by its checks: a string runs every check, anything else is a type issue.\<close>

definition z_string :: "(string \<Rightarrow> zcode list) list \<Rightarrow> jsval \<Rightarrow> string parsed" where
  "z_string checks v = (case v of
      JStr s \<Rightarrow> (case concat (map (\<lambda>chk. chk s) checks) of
                   [] \<Rightarrow> Inr s
                 | cs \<Rightarrow> Inl (map (\<lambda>c. ([], c)) cs))
    | _ \<Rightarrow> Inl [([], invalid_type)])"

definition z_enum :: "string list \<Rightarrow> jsval \<Rightarrow> string parsed" where
  "z_enum vals v = (case v of
      JStr s \<Rightarrow> if s \<in> set vals then Inr s else Inl [([], invalid_enum_value)]
    | _ \<Rightarrow> Inl [([], invalid_type)])"

definition z_boolean :: "jsval \<Rightarrow> bool parsed" where
  "z_boolean v = (case v of JBool b \<Rightarrow> Inr b | _ \<Rightarrow> Inl [([], invalid_type)])"

text \<open>\<open>z.object\<close> takes an object; the schemas below then parse each of its keys.\<close>

definition is_object :: "jsval \<Rightarrow> bool" where
  "is_object v = (case v of JObj _ \<Rightarrow> True | _ \<Rightarrow> False)"

text \<open>\<open>z.number().int().min(0)\<close>.\<close>

definition z_int_min0 :: "jsval \<Rightarrow> int parsed" where
  "z_int_min0 v = (case v of
      JNum r \<Rightarrow>
        (case (if of_int \<lfloor>r\<rfloor> = r then [] else [([], invalid_type)]) @
              (if r < 0 then [([], too_small)] else []) of
           [] \<Rightarrow> Inr \<lfloor>r\<rfloor>
         | is \<Rightarrow> Inl is)
    | _ \<Rightarrow> Inl [([], invalid_type)])"

definition z_optional :: "(jsval \<Rightarrow> 'a parsed) \<Rightarrow> jsval \<Rightarrow> 'a option parsed" where
  "z_optional p v = (case v of
      Undefined \<Rightarrow> Inr None
    | _ \<Rightarrow> (case p v of Inl is \<Rightarrow> Inl is | Inr x \<Rightarrow> Inr (Some x)))"

definition z_default :: "(jsval \<Rightarrow> 'a parsed) \<Rightarrow> 'a \<Rightarrow> jsval \<Rightarrow> 'a parsed" where
  "z_default p d v = (case v of Undefined \<Rightarrow> Inr d | _ \<Rightarrow> p v)"

text \<open>\<open>z.array(p)\<close>: every element is parsed, the issues of all of them are reported.\<close>

fun z_elements :: "(jsval \<Rightarrow> 'a parsed) \<Rightarrow> nat \<Rightarrow> jsval list \<Rightarrow> 'a list parsed" where
  "z_elements p i [] = Inr []"
| "z_elements p i (v # vs) =
     (case (at_path (Idx i) (p v), z_elements p (Suc i) vs) of
        (Inr x, Inr xs) \<Rightarrow> Inr (x # xs)
      | (r, rs) \<Rightarrow> Inl (issues_of r @ issues_of rs))"

definition z_array :: "(jsval \<Rightarrow> 'a parsed) \<Rightarrow> jsval \<Rightarrow> 'a list parsed" where
  "z_array p v = (case v of JArr vs \<Rightarrow> z_elements p 0 vs | _ \<Rightarrow> Inl [([], invalid_type)])"

text \<open>
  \<open>z.coerce.number().min(lo)\<close> with an optional \<open>.max(hi)\<close>, on a query-string value:
  \<open>Number\<close> is applied first, \<open>NaN\<close> is a type issue, then the bounds are checked.
\<close>

definition jsnum_less :: "jsnum \<Rightarrow> rat \<Rightarrow> bool" where
  "jsnum_less n b = (case n of Fin r \<Rightarrow> r < b | NegInf \<Rightarrow> True | _ \<Rightarrow> False)"

definition jsnum_greater :: "jsnum \<Rightarrow> rat \<Rightarrow> bool" where
  "jsnum_greater n b = (case n of Fin r \<Rightarrow> b < r | PosInf \<Rightarrow> True | _ \<Rightarrow> False)"

definition z_coerce_number :: "platform \<Rightarrow> rat \<Rightarrow> rat option \<Rightarrow> string \<Rightarrow> jsnum parsed" where
  "z_coerce_number P lo hi s =
     (let n = js_Number P s in
      if n = NaN then Inl [([], invalid_type)]
      else case (if jsnum_less n lo then [([], too_small)] else []) @
                (case hi of Some h \<Rightarrow> if jsnum_greater n h then [([], too_big)] else []
                          | None \<Rightarrow> []) of
             [] \<Rightarrow> Inr n
           | is \<Rightarrow> Inl is)"


section \<open>Errors and responses\<close>

text \<open>
  An error object as errorHandler inspects it: a validation error of the schema library,
  a known request error of the store client (with its code and the constraint it names),
  or any other error with the properties the handler reads.
\<close>

record js_error =
  e_name :: string
  e_message :: string
  e_statusCode :: "nat option"
  e_status :: "nat option"
  e_code :: "string option"
  e_isValidationError :: bool
  e_details :: jsval

datatype error =
    ZodError "issue list"
  | PrismaKnown string "string list"
  | JsError js_error

definition NotFoundError :: "string \<Rightarrow> error" where
  "NotFoundError msg = JsError \<lparr>e_name = ''NotFoundError'', e_message = msg,
     e_statusCode = Some 404, e_status = None, e_code = Some ''NOT_FOUND'',
     e_isValidationError = False, e_details = Undefined\<rparr>"

definition ConflictError :: "string \<Rightarrow> error" where
  "ConflictError msg = JsError \<lparr>e_name = ''ConflictError'', e_message = msg,
     e_statusCode = Some 409, e_status = None, e_code = Some ''CONFLICT'',
     e_isValidationError = False, e_details = Undefined\<rparr>"

definition ValidationError :: "string \<Rightarrow> jsval \<Rightarrow> error" where
  "ValidationError msg details = JsError \<lparr>e_name = ''ValidationError'', e_message = msg,
     e_statusCode = Some 400, e_status = None, e_code = Some ''VALIDATION_ERROR'',
     e_isValidationError = True, e_details = details\<rparr>"

text \<open>
  What the store client raises for an argument of the wrong type or a failure of the
  store (no status code, no error code), and a TypeError of the language.
\<close>

definition StoreError :: "platform \<Rightarrow> error" where
  "StoreError P = JsError \<lparr>e_name = ''PrismaClientValidationError'',
     e_message = store_error_text P, e_statusCode = None, e_status = None, e_code = None,
     e_isValidationError = False, e_details = Undefined\<rparr>"

definition TypeError :: error where
  "TypeError = JsError \<lparr>e_name = ''TypeError'', e_message = ''not a function'',
     e_statusCode = None, e_status = None, e_code = None,
     e_isValidationError = False, e_details = Undefined\<rparr>"

datatype extra = XIssues "issue list" | XStr string | XNum nat | XList "string list" | XVal jsval

record problem =
  pd_type :: string
  pd_title :: string
  pd_status :: nat
  pd_detail :: string
  pd_instance :: "string option"
  pd_requestId :: "string option"
  pd_statusCode :: "nat option"
  pd_extra :: "(string \<times> extra) list"

record project_row =
  proj_id :: string
  proj_name :: string
  proj_createdAt :: int
  proj_updatedAt :: int

record document_row =
  doc_id :: string
  doc_projectId :: string
  doc_kind :: string
  doc_title :: string
  doc_content :: string
  doc_slug :: "string option"
  doc_createdAt :: int
  doc_updatedAt :: int

record sprint_row =
  spr_id :: string
  spr_projectId :: string
  spr_code :: string
  spr_name :: string
  spr_status :: string
  spr_startDate :: "int option"
  spr_endDate :: "int option"
  spr_createdAt :: int
  spr_updatedAt :: int

record item_row =
  item_id :: string
  item_sprintId :: string
  item_text :: string
  item_checked :: bool
  item_order :: int
  item_createdAt :: int
  item_updatedAt :: int

text \<open>
  One entry of the sprint list: the sprint, the id and name of its project, the number
  of its items and the number of its checked items.
\<close>

record sprint_entry =
  se_sprint :: sprint_row
  se_project :: "(string \<times> string) option"
  se_itemCount :: nat
  se_completedItemCount :: nat

text \<open>
  The body of a response. Dates are kept as time values; the handlers send their ISO
  text. \<open>ValidationFailed is\<close> is the object \<open>{error: 'Validation failed', details: is}\<close>.
  A list body carries the page, \<open>total\<close>, \<open>limit\<close> and \<open>offset\<close>; the document list
  echoes the raw query values (\<open>None\<close> when the key is absent).
\<close>

datatype reply_body =
    Problem problem
  | ValidationFailed "issue list"
  | DocumentBody document_row
  | DocumentList "document_row list" nat "string option" "string option"
  | SprintBody sprint_row "item_row list"
  | SprintList "sprint_entry list" nat jsnum jsnum
  | Empty

record response =
  status :: nat
  content_type :: "string option"
  body :: reply_body

record request =
  r_url :: string
  r_id :: string
  r_headers :: "string \<rightharpoonup> string"
  r_params_id :: string
  r_query :: "string \<rightharpoonup> string"
  r_body :: jsval

definition truthy :: "jsval \<Rightarrow> bool" where
  "truthy v = (case v of
      Undefined \<Rightarrow> False | JNull \<Rightarrow> False | JBool b \<Rightarrow> b
    | JNum r \<Rightarrow> r \<noteq> 0 | JStr s \<Rightarrow> s \<noteq> [] | _ \<Rightarrow> True)"

text \<open>The status code of an error object, 0 when it has none: \<open>if (error.statusCode)\<close> tests it.\<close>

definition truthy_status :: "nat option \<Rightarrow> nat" where
  "truthy_status c = (case c of Some n \<Rightarrow> n | None \<Rightarrow> 0)"

text \<open>errorHandler (middleware/error-handler.ts): the branches in the order of the source.\<close>

definition problemDetails :: "error \<Rightarrow> request \<Rightarrow> problem" where
  "problemDetails err req = (case err of
      ZodError is \<Rightarrow>
        \<lparr>pd_type = ''https://1plan.dev/errors/validation-error'', pd_title = ''Validation Error'',
         pd_status = 400, pd_detail = ''Request validation failed'',
         pd_instance = Some (r_url req), pd_requestId = None, pd_statusCode = None,
         pd_extra = [(''errors'', XIssues is)]\<rparr>
    | PrismaKnown c target \<Rightarrow>
        if c = ''P2002'' then
          \<lparr>pd_type = ''https://1plan.dev/errors/conflict'', pd_title = ''Conflict'',
           pd_status = 409, pd_detail = ''Resource already exists'',
           pd_instance = Some (r_url req), pd_requestId = None, pd_statusCode = None,
           pd_extra = [(''constraint'', XList target)]\<rparr>
        else if c = ''P2025'' then
          \<lparr>pd_type = ''https://1plan.dev/errors/not-found'', pd_title = ''Not Found'',
           pd_status = 404, pd_detail = ''Resource not found'',
           pd_instance = Some (r_url req), pd_requestId = None, pd_statusCode = None,
           pd_extra = []\<rparr>
        else
          \<lparr>pd_type = ''https://1plan.dev/errors/database-error'', pd_title = ''Database Error'',
           pd_status = 500, pd_detail = ''An error occurred while accessing the database'',
           pd_instance = Some (r_url req), pd_requestId = None, pd_statusCode = None,
           pd_extra = [(''code'', XStr c)]\<rparr>
    | JsError e \<Rightarrow>
        if e_statusCode e = Some 429 \<or> e_status e = Some 429 \<or> rate_limit_test (e_message e) then
          \<lparr>pd_type = ''https://1plan.dev/errors/rate-limit-exceeded'',
           pd_title = ''Rate Limit Exceeded'', pd_status = 429,
           pd_detail = (if e_message e = [] then ''Too many requests'' else e_message e),
           pd_instance = Some (r_url req), pd_requestId = None, pd_statusCode = Some 429,
           pd_extra = [(''error'', XStr ''Too Many Requests'')]\<rparr>
        else if truthy_status (e_statusCode e) \<noteq> 0 then
          \<lparr>pd_type = ''https://1plan.dev/errors/'' @
             (case e_code e of
                Some c \<Rightarrow> if toLowerCase c = [] then ''api-error'' else toLowerCase c
              | None \<Rightarrow> ''api-error''),
           pd_title = (if e_name e = [] then ''API Error'' else e_name e),
           pd_status = truthy_status (e_statusCode e), pd_detail = e_message e,
           pd_instance = Some (r_url req), pd_requestId = None, pd_statusCode = None,
           pd_extra = (if e_isValidationError e \<and> truthy (e_details e)
                       then [(''details'', XVal (e_details e))] else [])\<rparr>
        else
          \<lparr>pd_type = ''https://1plan.dev/errors/internal-server-error'',
           pd_title = ''Internal Server Error'', pd_status = 500,
           pd_detail = ''An unexpected error occurred'',
           pd_instance = Some (r_url req), pd_requestId = None, pd_statusCode = None,
           pd_extra = []\<rparr>)"

definition errorHandler :: "error \<Rightarrow> request \<Rightarrow> response" where
  "errorHandler err req =
     (let pd = problemDetails err req;
          pd1 = pd\<lparr>pd_requestId := Some (r_id req)\<rparr>;
          pd2 = pd1\<lparr>pd_statusCode :=
                  (case pd_statusCode pd1 of Some c \<Rightarrow> Some c | None \<Rightarrow> Some (pd_status pd1))\<rparr>
      in \<lparr>status = pd_status pd2, content_type = Some ''application/problem+json'',
          body = Problem pd2\<rparr>)"

text \<open>A problem object that a route builds and sends itself.\<close>

definition route_problem :: "nat \<Rightarrow> string \<Rightarrow> string \<Rightarrow> string \<Rightarrow> string option \<Rightarrow>
    (string \<times> extra) list \<Rightarrow> response" where
  "route_problem st ty ti de rid ex =
     \<lparr>status = st, content_type = None,
      body = Problem \<lparr>pd_type = ty, pd_title = ti, pd_status = st, pd_detail = de,
        pd_instance = None, pd_requestId = rid, pd_statusCode = None, pd_extra = ex\<rparr>\<rparr>"


section \<open>The store\<close>

text \<open>
  The tables the modelled routes read and write, rows in insertion order. The unique
  indexes of the migration are \<open>(projectId, slug)\<close> on documents and
  \<open>(projectId, code)\<close> on sprints; a null slug never collides.
\<close>

record db =
  projects :: "project_row list"
  documents :: "document_row list"
  sprints :: "sprint_row list"
  sprintItems :: "item_row list"

definition project_findUnique :: "db \<Rightarrow> string \<Rightarrow> project_row option" where
  "project_findUnique d i = find (\<lambda>p. proj_id p = i) (projects d)"

definition documentKinds :: "string list" where
  "documentKinds = [''PRD'', ''TECH_OVERVIEW'', ''SPRINT_OVERVIEW'', ''SPRINT'', ''FREEFORM'']"

definition sprintStatuses :: "string list" where
  "sprintStatuses = [''PLANNED'', ''ACTIVE'', ''DONE'', ''CANCELLED'']"

definition slug_taken :: "db \<Rightarrow> string \<Rightarrow> string \<Rightarrow> string option \<Rightarrow> bool" where
  \<comment> \<open>a document other than \<open>self\<close> holds \<open>(pid, slug)\<close>\<close>
  "slug_taken d pid slug self =
     list_ex (\<lambda>x. doc_projectId x = pid \<and> doc_slug x = Some slug \<and> Some (doc_id x) \<noteq> self)
       (documents d)"

definition document_create :: "platform \<Rightarrow> string \<Rightarrow> string \<Rightarrow> string \<Rightarrow> string \<Rightarrow> string \<Rightarrow>
    db \<Rightarrow> error + (document_row \<times> db)" where
  "document_create P pid kind title content slug d =
     (if slug_taken d pid slug None then Inl (PrismaKnown ''P2002'' [''projectId'', ''slug''])
      else if project_findUnique d pid = None then Inl (PrismaKnown ''P2003'' [''projectId''])
      else let row = \<lparr>doc_id = fresh P 0, doc_projectId = pid, doc_kind = kind,
                        doc_title = title, doc_content = content, doc_slug = Some slug,
                        doc_createdAt = now P, doc_updatedAt = now P\<rparr>
           in Inr (row, d\<lparr>documents := documents d @ [row]\<rparr>))"

text \<open>
  \<open>orderBy: {[field]: direction}\<close>. Text is compared code unit by code unit and a null
  is the least key. Rows with equal keys keep their table order in both directions (the
  store leaves it open): the sort is stable, and for \<open>desc\<close> it runs on the reversed
  table, so that reversing its result puts equal keys back in table order.
\<close>

definition order_by :: "('a \<Rightarrow> 'k::linorder) \<Rightarrow> string \<Rightarrow> 'a list \<Rightarrow> 'a list" where
  "order_by key dir xs =
     (if dir = ''desc'' then rev (sort_key key (rev xs)) else sort_key key xs)"

definition order_documents :: "string \<Rightarrow> string \<Rightarrow> document_row list \<Rightarrow> document_row list option" where
  "order_documents f dir xs =
     (if dir \<noteq> ''asc'' \<and> dir \<noteq> ''desc'' then None
      else if f = ''id'' then Some (order_by doc_id dir xs)
      else if f = ''projectId'' then Some (order_by doc_projectId dir xs)
      else if f = ''kind'' then Some (order_by doc_kind dir xs)
      else if f = ''title'' then Some (order_by doc_title dir xs)
      else if f = ''content'' then Some (order_by doc_content dir xs)
      else if f = ''slug'' then Some (order_by doc_slug dir xs)
      else if f = ''createdAt'' then Some (order_by doc_createdAt dir xs)
      else if f = ''updatedAt'' then Some (order_by doc_updatedAt dir xs)
      else None)"

definition document_where :: "string option \<Rightarrow> string option \<Rightarrow> document_row \<Rightarrow> bool" where
  "document_where pid kind x =
     ((case pid of Some p \<Rightarrow> doc_projectId x = p | None \<Rightarrow> True) \<and>
      (case kind of Some k \<Rightarrow> doc_kind x = k | None \<Rightarrow> True))"

definition document_count :: "platform \<Rightarrow> string option \<Rightarrow> string option \<Rightarrow> db \<Rightarrow> error + nat" where
  "document_count P pid kind d =
     (if (case kind of Some k \<Rightarrow> k \<notin> set documentKinds | None \<Rightarrow> False) then Inl (StoreError P)
      else Inr (length (filter (document_where pid kind) (documents d))))"

text \<open>
  \<open>db.document.findMany\<close> with the arguments as the document route passes them: the raw
  query values. An undefined argument is left out; \<open>take\<close> and \<open>skip\<close> must be integers,
  so the client refuses any text there. A key \<open>sortBy\<close> that is undefined makes the
  property name \<open>undefined\<close>, which is no field unless its value is undefined too.
\<close>

definition document_findMany :: "platform \<Rightarrow> string option \<Rightarrow> string option \<Rightarrow> string option \<Rightarrow>
    string option \<Rightarrow> string option \<Rightarrow> string option \<Rightarrow> db \<Rightarrow> error + document_row list" where
  "document_findMany P pid kind sortBy sortOrder tk sk d =
     (if (case kind of Some k \<Rightarrow> k \<notin> set documentKinds | None \<Rightarrow> False) then Inl (StoreError P)
      else if tk \<noteq> None \<or> sk \<noteq> None then Inl (StoreError P)
      else let rows = filter (document_where pid kind) (documents d) in
        case sortOrder of
          None \<Rightarrow> Inr rows
        | Some dir \<Rightarrow>
            (case sortBy of
               None \<Rightarrow> Inl (StoreError P)
             | Some f \<Rightarrow> (case order_documents f dir rows of
                            Some ys \<Rightarrow> Inr ys
                          | None \<Rightarrow> Inl (StoreError P))))"

text \<open>
  \<open>db.document.update({where: {id}, data})\<close> with the data as the route passes it: the
  request body. The client reads the data first and refuses what it cannot read; then
  the row is looked up, the columns are set (\<open>updatedAt\<close> to the clock unless the data
  sets it), and the constraints of the migration are checked: the primary key, the
  unique index \<open>(projectId, slug)\<close>, and the foreign key of a \<open>projectId\<close> that is set.
\<close>

definition changed :: "'a option \<Rightarrow> 'a \<Rightarrow> 'a" where
  "changed c old = (case c of Some x \<Rightarrow> x | None \<Rightarrow> old)"

definition document_update :: "platform \<Rightarrow> string \<Rightarrow> jsval \<Rightarrow> db \<Rightarrow> error + (document_row \<times> db)" where
  "document_update P i data d =
     (case document_data P data of
        None \<Rightarrow> Inl (StoreError P)
      | Some ch \<Rightarrow>
          (case find (\<lambda>x. doc_id x = i) (documents d) of
             None \<Rightarrow> Inl (PrismaKnown ''P2025'' [])
           | Some old \<Rightarrow>
               let row = \<lparr>doc_id = changed (dc_id ch) (doc_id old),
                          doc_projectId = changed (dc_projectId ch) (doc_projectId old),
                          doc_kind = changed (dc_kind ch) (doc_kind old),
                          doc_title = changed (dc_title ch) (doc_title old),
                          doc_content = changed (dc_content ch) (doc_content old),
                          doc_slug = changed (dc_slug ch) (doc_slug old),
                          doc_createdAt = changed (dc_createdAt ch) (doc_createdAt old),
                          doc_updatedAt = changed (dc_updatedAt ch) (now P)\<rparr>
               in if doc_id row \<noteq> i \<and> list_ex (\<lambda>x. doc_id x = doc_id row) (documents d)
                  then Inl (PrismaKnown ''P2002'' [''id''])
                  else if (case doc_slug row of
                             Some sl \<Rightarrow> slug_taken d (doc_projectId row) sl (Some i)
                           | None \<Rightarrow> False)
                  then Inl (PrismaKnown ''P2002'' [''projectId'', ''slug''])
                  else if dc_projectId ch \<noteq> None \<and> project_findUnique d (doc_projectId row) = None
                  then Inl (PrismaKnown ''P2003'' [''projectId''])
                  else Inr (row, d\<lparr>documents :=
                         map (\<lambda>x. if doc_id x = i then row else x) (documents d)\<rparr>)))"

section \<open>Document routes (routes/documents.ts, types/document.ts)\<close>

record create_document_input =
  cd_projectId :: string
  cd_kind :: string
  cd_title :: string
  cd_content :: string
  cd_slug :: "string option"

definition createDocumentSchema :: "jsval \<Rightarrow> create_document_input parsed" where
  "createDocumentSchema v =
     (if \<not> is_object v then Inl [([], invalid_type)]
      else
        case (at_path (Key ''projectId'') (z_string [z_regex re_cuid] (field ''projectId'' v)),
              at_path (Key ''kind'') (z_enum documentKinds (field ''kind'' v)),
              at_path (Key ''title'') (z_string [z_min 1, z_max 200] (field ''title'' v)),
              at_path (Key ''content'') (z_string [z_min 1] (field ''content'' v)),
              at_path (Key ''slug'')
                (z_optional (z_string [z_min 1, z_max 100, z_regex re_slug]) (field ''slug'' v))) of
          (Inr p, Inr k, Inr t, Inr c, Inr sl) \<Rightarrow>
            Inr \<lparr>cd_projectId = p, cd_kind = k, cd_title = t, cd_content = c, cd_slug = sl\<rparr>
        | (rp, rk, rt, rc, rs) \<Rightarrow>
            Inl (issues_of rp @ issues_of rk @ issues_of rt @ issues_of rc @ issues_of rs))"

text \<open>The same rules with every field optional; no route calls it.\<close>

record update_document_input =
  ud_kind :: "string option"
  ud_title :: "string option"
  ud_content :: "string option"
  ud_slug :: "string option"

definition updateDocumentSchema :: "jsval \<Rightarrow> update_document_input parsed" where
  "updateDocumentSchema v =
     (if \<not> is_object v then Inl [([], invalid_type)]
      else
        case (at_path (Key ''kind'') (z_optional (z_enum documentKinds) (field ''kind'' v)),
              at_path (Key ''title'')
                (z_optional (z_string [z_min 1, z_max 200]) (field ''title'' v)),
              at_path (Key ''content'') (z_optional (z_string [z_min 1]) (field ''content'' v)),
              at_path (Key ''slug'')
                (z_optional (z_string [z_min 1, z_max 100, z_regex re_slug]) (field ''slug'' v))) of
          (Inr k, Inr t, Inr c, Inr sl) \<Rightarrow>
            Inr \<lparr>ud_kind = k, ud_title = t, ud_content = c, ud_slug = sl\<rparr>
        | (rk, rt, rc, rs) \<Rightarrow>
            Inl (issues_of rk @ issues_of rt @ issues_of rc @ issues_of rs))"

text \<open>\<open>data.slug || generateSlug(data.title)\<close>.\<close>

definition slug_for :: "create_document_input \<Rightarrow> string" where
  "slug_for data = (case cd_slug data of
      Some s \<Rightarrow> if s \<noteq> [] then s else generateSlug (cd_title data)
    | None \<Rightarrow> generateSlug (cd_title data))"

text \<open>The message of the conflict the document routes raise, with the slug between single quotes.\<close>

definition slug_conflict_message :: "string \<Rightarrow> string" where
  "slug_conflict_message slug =
     ''Document with slug '' @ [CHR 0x27] @ slug @ [CHR 0x27] @ '' already exists in this project''"

definition ok :: "nat \<Rightarrow> reply_body \<Rightarrow> response" where
  "ok st b = \<lparr>status = st, content_type = None, body = b\<rparr>"

text \<open>POST /documents.\<close>

definition post_documents :: "platform \<Rightarrow> request \<Rightarrow> db \<Rightarrow> response \<times> db" where
  "post_documents P req d =
     (case createDocumentSchema (r_body req) of
        Inl is \<Rightarrow> (ok 400 (ValidationFailed is), d)
      | Inr data \<Rightarrow>
          (let slug = slug_for data in
           (case project_findUnique d (cd_projectId data) of
              None \<Rightarrow> (errorHandler (NotFoundError ''Project not found'') req, d)
            | Some _ \<Rightarrow>
                (case document_create P (cd_projectId data) (cd_kind data) (cd_title data)
                        (cd_content data) slug d of
                   Inl (PrismaKnown c target) \<Rightarrow>
                     if c = ''P2002''
                     then (errorHandler (ConflictError (slug_conflict_message slug)) req, d)
                     else (errorHandler (PrismaKnown c target) req, d)
                 | Inl e \<Rightarrow> (errorHandler e req, d)
                 | Inr (row, d') \<Rightarrow> (ok 201 (DocumentBody row), d')))))"

text \<open>
  GET /documents. The query is used as it arrives (\<open>request.query as ListDocumentsQuery\<close>):
  no schema is applied, so its values are the texts of the query string.
\<close>

definition nonempty :: "string option \<Rightarrow> string option" where
  \<comment> \<open>\<open>x && ...\<close> on a text that may be undefined\<close>
  "nonempty x = (case x of Some s \<Rightarrow> if s \<noteq> [] then Some s else None | None \<Rightarrow> None)"

definition get_documents :: "platform \<Rightarrow> request \<Rightarrow> db \<Rightarrow> response \<times> db" where
  "get_documents P req d =
     (let q = r_query req;
          pid = nonempty (q ''projectId'');
          kind = nonempty (q ''kind'')
      in case document_findMany P pid kind (q ''sortBy'') (q ''sortOrder'')
                (q ''limit'') (q ''offset'') d of
           Inl e \<Rightarrow> (errorHandler e req, d)
         | Inr docs \<Rightarrow>
             (case document_count P pid kind d of
                Inl e \<Rightarrow> (errorHandler e req, d)
              | Inr n \<Rightarrow>
                  (ok 200 (DocumentList docs n (q ''limit'') (q ''offset'')), d)))"

text \<open>
  PATCH /documents/:id. The body is used as it arrives (\<open>request.body as
  UpdateDocumentInput\<close>): no schema is applied. A title that is truthy and no text makes
  generateSlug raise a TypeError, as does a body that is undefined or null.
\<close>

definition text_ok :: "jsval \<Rightarrow> bool" where
  \<comment> \<open>undefined or a text: what \<open>generateSlug\<close> is not called on, or can lower-case\<close>
  "text_ok v = (case v of Undefined \<Rightarrow> True | JStr _ \<Rightarrow> True | _ \<Rightarrow> False)"

definition patch_documents :: "platform \<Rightarrow> request \<Rightarrow> db \<Rightarrow> response \<times> db" where
  "patch_documents P req d =
     (let data = r_body req; title = field ''title'' data in
      if data = Undefined \<or> data = JNull then (errorHandler TypeError req, d)
      else if truthy title \<and> \<not> truthy (field ''slug'' data) \<and> \<not> text_ok title
      then (errorHandler TypeError req, d)
      else
        let data' = (case title of
                       JStr t \<Rightarrow> if t \<noteq> [] \<and> \<not> truthy (field ''slug'' data)
                                 then (case data of
                                         JObj kvs \<Rightarrow> JObj (kvs @ [(''slug'', JStr (generateSlug t))])
                                       | _ \<Rightarrow> data)
                                 else data
                     | _ \<Rightarrow> data)
        in case document_update P (r_params_id req) data' d of
             Inl (PrismaKnown c target) \<Rightarrow>
               if c = ''P2025'' then (errorHandler (NotFoundError ''Document not found'') req, d)
               else if c = ''P2002''
               then (errorHandler (ConflictError (slug_conflict_message
                       (case field ''slug'' data' of JStr s \<Rightarrow> s | JNull \<Rightarrow> ''null''
                          | _ \<Rightarrow> ''undefined''))) req, d)
               else (errorHandler (PrismaKnown c target) req, d)
           | Inl e \<Rightarrow> (errorHandler e req, d)
           | Inr (row, d') \<Rightarrow> (ok 200 (DocumentBody row), d'))"


section \<open>Sprint routes (routes/sprints.ts)\<close>

subsection \<open>Store operations\<close>

definition sprint_by_id :: "db \<Rightarrow> string \<Rightarrow> sprint_row option" where
  "sprint_by_id d i = find (\<lambda>x. spr_id x = i) (sprints d)"

definition sprint_by_code :: "db \<Rightarrow> string \<Rightarrow> string \<Rightarrow> sprint_row option" where
  "sprint_by_code d pid c = find (\<lambda>x. spr_projectId x = pid \<and> spr_code x = c) (sprints d)"

definition items_of :: "db \<Rightarrow> string \<Rightarrow> item_row list" where
  "items_of d i = filter (\<lambda>x. item_sprintId x = i) (sprintItems d)"

text \<open>
  A date argument of a write: \<open>v ? new Date(v) : null\<close>. The store client refuses an
  invalid date.
\<close>

definition date_arg :: "platform \<Rightarrow> string option \<Rightarrow> error + int option" where
  "date_arg P v = (case nonempty v of
      None \<Rightarrow> Inr None
    | Some s \<Rightarrow> (case js_Date P s of Some t \<Rightarrow> Inr (Some t) | None \<Rightarrow> Inl (StoreError P)))"

definition sprint_create :: "platform \<Rightarrow> string \<Rightarrow> string \<Rightarrow> string \<Rightarrow> string \<Rightarrow>
    string option \<Rightarrow> string option \<Rightarrow> db \<Rightarrow> error + (sprint_row \<times> db)" where
  "sprint_create P pid c nm st sd ed d =
     (case (date_arg P sd, date_arg P ed) of
        (Inr sd', Inr ed') \<Rightarrow>
          if sprint_by_code d pid c \<noteq> None then Inl (PrismaKnown ''P2002'' [''projectId'', ''code''])
          else if project_findUnique d pid = None then Inl (PrismaKnown ''P2003'' [''projectId''])
          else let row = \<lparr>spr_id = fresh P 0, spr_projectId = pid, spr_code = c, spr_name = nm,
                            spr_status = st, spr_startDate = sd', spr_endDate = ed',
                            spr_createdAt = now P, spr_updatedAt = now P\<rparr>
               in Inr (row, d\<lparr>sprints := sprints d @ [row]\<rparr>)
      | _ \<Rightarrow> Inl (StoreError P))"

text \<open>
  The data of \<open>tx.sprint.update\<close>: a property is present (\<open>Some\<close>) when the spread of the
  source adds it.
\<close>

record sprint_changes =
  ch_code :: "string option"
  ch_name :: "string option"
  ch_status :: "string option"
  ch_startDate :: "string option option"
  ch_endDate :: "string option option"

definition date_change :: "platform \<Rightarrow> string option option \<Rightarrow> int option \<Rightarrow> error + int option" where
  "date_change P c old = (case c of None \<Rightarrow> Inr old | Some v \<Rightarrow> date_arg P v)"

definition sprint_update :: "platform \<Rightarrow> string \<Rightarrow> sprint_changes \<Rightarrow> db \<Rightarrow>
    error + (sprint_row \<times> db)" where
  "sprint_update P i ch d =
     (case sprint_by_id d i of
        None \<Rightarrow>
          (case (date_arg P (case ch_startDate ch of Some v \<Rightarrow> v | None \<Rightarrow> None),
                 date_arg P (case ch_endDate ch of Some v \<Rightarrow> v | None \<Rightarrow> None)) of
             (Inr _, Inr _) \<Rightarrow> Inl (PrismaKnown ''P2025'' [])
           | _ \<Rightarrow> Inl (StoreError P))
      | Some old \<Rightarrow>
          (case (date_change P (ch_startDate ch) (spr_startDate old),
                 date_change P (ch_endDate ch) (spr_endDate old)) of
             (Inr sd', Inr ed') \<Rightarrow>
               let c = (case ch_code ch of Some x \<Rightarrow> x | None \<Rightarrow> spr_code old) in
               if list_ex (\<lambda>x. spr_projectId x = spr_projectId old \<and> spr_code x = c \<and>
                                spr_id x \<noteq> i) (sprints d)
               then Inl (PrismaKnown ''P2002'' [''projectId'', ''code''])
               else let row = old\<lparr>spr_code := c,
                                    spr_name := (case ch_name ch of Some x \<Rightarrow> x | None \<Rightarrow> spr_name old),
                                    spr_status := (case ch_status ch of Some x \<Rightarrow> x
                                                   | None \<Rightarrow> spr_status old),
                                    spr_startDate := sd', spr_endDate := ed',
                                    spr_updatedAt := now P\<rparr>
                    in Inr (row, d\<lparr>sprints := map (\<lambda>x. if spr_id x = i then row else x) (sprints d)\<rparr>)
           | _ \<Rightarrow> Inl (StoreError P)))"

definition item_deleteMany :: "string \<Rightarrow> db \<Rightarrow> db" where
  "item_deleteMany i d = d\<lparr>sprintItems := filter (\<lambda>x. item_sprintId x \<noteq> i) (sprintItems d)\<rparr>"

text \<open>\<open>tx.sprintItem.create\<close>; \<open>k\<close> numbers the identifier the store gives to the row.\<close>

definition item_create :: "platform \<Rightarrow> nat \<Rightarrow> string \<Rightarrow> string \<Rightarrow> bool \<Rightarrow> int \<Rightarrow> db \<Rightarrow>
    error + (item_row \<times> db)" where
  "item_create P k sid txt chk ord d =
     (if refuses_item P txt chk ord then Inl (StoreError P)
      else if sprint_by_id d sid = None then Inl (PrismaKnown ''P2003'' [''sprintId''])
      else let row = \<lparr>item_id = fresh P k, item_sprintId = sid, item_text = txt,
                        item_checked = chk, item_order = ord,
                        item_createdAt = now P, item_updatedAt = now P\<rparr>
           in Inr (row, d\<lparr>sprintItems := sprintItems d @ [row]\<rparr>))"

text \<open>
  \<open>db.$transaction(body)\<close>: the writes of the body are kept when it returns and dropped
  when it raises.
\<close>

definition transaction :: "(db \<Rightarrow> error + ('a \<times> db)) \<Rightarrow> db \<Rightarrow> (error + 'a) \<times> db" where
  "transaction f d = (case f d of Inl e \<Rightarrow> (Inl e, d) | Inr (x, d') \<Rightarrow> (Inr x, d'))"

subsection \<open>Schemas\<close>

record sprint_item_input =
  si_text :: string
  si_checked :: bool
  si_order :: int

definition SprintItemSchema :: "jsval \<Rightarrow> sprint_item_input parsed" where
  "SprintItemSchema v =
     (if \<not> is_object v then Inl [([], invalid_type)]
      else
        case (at_path (Key ''text'') (z_string [z_min 1, z_max 500] (field ''text'' v)),
              at_path (Key ''checked'') (z_default z_boolean False (field ''checked'' v)),
              at_path (Key ''order'') (z_default z_int_min0 0 (field ''order'' v))) of
          (Inr t, Inr c, Inr ord) \<Rightarrow> Inr \<lparr>si_text = t, si_checked = c, si_order = ord\<rparr>
        | (rt, rc, ro) \<Rightarrow> Inl (issues_of rt @ issues_of rc @ issues_of ro))"

record create_sprint_input =
  cs_projectId :: string
  cs_code :: string
  cs_name :: string
  cs_status :: string
  cs_startDate :: "string option"
  cs_endDate :: "string option"
  cs_items :: "sprint_item_input list"

definition CreateSprintSchema :: "platform \<Rightarrow> jsval \<Rightarrow> create_sprint_input parsed" where
  "CreateSprintSchema P v =
     (if \<not> is_object v then Inl [([], invalid_type)]
      else
        case (at_path (Key ''projectId'') (z_string [z_min 1] (field ''projectId'' v)),
              at_path (Key ''code'') (z_string [z_min 1, z_regex re_sprint_code] (field ''code'' v)),
              at_path (Key ''name'') (z_string [z_min 1, z_max 200] (field ''name'' v)),
              at_path (Key ''status'')
                (z_default (z_enum sprintStatuses) ''PLANNED'' (field ''status'' v)),
              at_path (Key ''startDate'')
                (z_optional (z_string [z_regex (zod_datetime P)]) (field ''startDate'' v)),
              at_path (Key ''endDate'')
                (z_optional (z_string [z_regex (zod_datetime P)]) (field ''endDate'' v)),
              at_path (Key ''items'')
                (z_default (z_array SprintItemSchema) [] (field ''items'' v))) of
          (Inr p, Inr c, Inr n, Inr st, Inr sd, Inr ed, Inr its) \<Rightarrow>
            Inr \<lparr>cs_projectId = p, cs_code = c, cs_name = n, cs_status = st,
                 cs_startDate = sd, cs_endDate = ed, cs_items = its\<rparr>
        | (rp, rc, rn, rst, rsd, red, rits) \<Rightarrow>
            Inl (issues_of rp @ issues_of rc @ issues_of rn @ issues_of rst @ issues_of rsd @
                 issues_of red @ issues_of rits))"

record update_sprint_input =
  us_code :: "string option"
  us_name :: "string option"
  us_status :: "string option"
  us_startDate :: "string option"
  us_endDate :: "string option"
  us_items :: "sprint_item_input list option"

definition UpdateSprintSchema :: "platform \<Rightarrow> jsval \<Rightarrow> update_sprint_input parsed" where
  "UpdateSprintSchema P v =
     (if \<not> is_object v then Inl [([], invalid_type)]
      else
        case (at_path (Key ''code'')
                (z_optional (z_string [z_regex re_sprint_code]) (field ''code'' v)),
              at_path (Key ''name'')
                (z_optional (z_string [z_min 1, z_max 200]) (field ''name'' v)),
              at_path (Key ''status'') (z_optional (z_enum sprintStatuses) (field ''status'' v)),
              at_path (Key ''startDate'')
                (z_optional (z_string [z_regex (zod_datetime P)]) (field ''startDate'' v)),
              at_path (Key ''endDate'')
                (z_optional (z_string [z_regex (zod_datetime P)]) (field ''endDate'' v)),
              at_path (Key ''items'')
                (z_optional (z_array SprintItemSchema) (field ''items'' v))) of
          (Inr c, Inr n, Inr st, Inr sd, Inr ed, Inr its) \<Rightarrow>
            Inr \<lparr>us_code = c, us_name = n, us_status = st,
                 us_startDate = sd, us_endDate = ed, us_items = its\<rparr>
        | (rc, rn, rst, rsd, red, rits) \<Rightarrow>
            Inl (issues_of rc @ issues_of rn @ issues_of rst @ issues_of rsd @
                 issues_of red @ issues_of rits))"


subsection \<open>Handlers\<close>

text \<open>The \<open>catch\<close> of the sprint handlers: a schema failure is answered 422, anything else 500.\<close>

definition sprint_catch :: "string \<Rightarrow> string \<Rightarrow> error \<Rightarrow> request \<Rightarrow> response" where
  "sprint_catch invalid_detail internal_detail err req =
     (case err of
        ZodError is \<Rightarrow>
          route_problem 422 ''https://1plan.dev/errors/validation-failed'' ''Validation Failed''
            invalid_detail (r_headers req ''x-request-id'') [(''issues'', XIssues is)]
      | _ \<Rightarrow>
          route_problem 500 ''https://1plan.dev/errors/internal-error'' ''Internal Server Error''
            internal_detail (r_headers req ''x-request-id'') [])"

definition end_not_after_start :: "int option \<Rightarrow> int option \<Rightarrow> bool" where
  \<comment> \<open>\<open>startDate && endDate && endDate <= startDate\<close>; \<open>None\<close> is null or an invalid date\<close>
  "end_not_after_start sd ed = (case (sd, ed) of (Some ts, Some te) \<Rightarrow> te \<le> ts | _ \<Rightarrow> False)"

definition date_problem :: "request \<Rightarrow> response" where
  "date_problem req =
     route_problem 422 ''https://1plan.dev/errors/validation-failed'' ''Validation Failed''
       ''End date must be after start date'' (r_headers req ''x-request-id'') []"

text \<open>
  The insert loop of both handlers: item \<open>i\<close> of the array is stored with
  \<open>order: item.order || i\<close>; the first insert that raises ends the loop.
\<close>

definition stored_order :: "nat \<Rightarrow> sprint_item_input \<Rightarrow> int" where
  \<comment> \<open>\<open>item.order || i\<close>\<close>
  "stored_order i it = (if si_order it = 0 then int i else si_order it)"

fun create_items :: "platform \<Rightarrow> string \<Rightarrow> nat \<Rightarrow> sprint_item_input list \<Rightarrow> db \<Rightarrow>
    error + (item_row list \<times> db)" where
  "create_items P sid i [] d = Inr ([], d)"
| "create_items P sid i (it # its) d =
     (case item_create P (Suc i) sid (si_text it) (si_checked it) (stored_order i it) d of
        Inl e \<Rightarrow> Inl e
      | Inr (row, d1) \<Rightarrow>
          (case create_items P sid (Suc i) its d1 of
             Inl e \<Rightarrow> Inl e
           | Inr (rows, d2) \<Rightarrow> Inr (row # rows, d2)))"

text \<open>POST /sprints.\<close>

definition create_sprint_tx :: "platform \<Rightarrow> create_sprint_input \<Rightarrow> db \<Rightarrow>
    error + ((sprint_row \<times> item_row list) \<times> db)" where
  "create_sprint_tx P data d0 =
     (case sprint_create P (cs_projectId data) (cs_code data) (cs_name data) (cs_status data)
             (cs_startDate data) (cs_endDate data) d0 of
        Inl e \<Rightarrow> Inl e
      | Inr (row, d1) \<Rightarrow>
          (case (if cs_items data \<noteq> [] then create_items P (spr_id row) 0 (cs_items data) d1
                 else Inr ([], d1)) of
             Inl e \<Rightarrow> Inl e
           | Inr (rows, d2) \<Rightarrow> Inr ((row, rows), d2)))"

definition post_sprints :: "platform \<Rightarrow> request \<Rightarrow> db \<Rightarrow> response \<times> db" where
  "post_sprints P req d =
     (let requestId = r_headers req ''x-request-id'';
          on_error = sprint_catch ''Request body contains invalid data''
                       ''An unexpected error occurred while creating the sprint''
      in case CreateSprintSchema P (r_body req) of
           Inl is \<Rightarrow> (on_error (ZodError is) req, d)
         | Inr data \<Rightarrow>
             if project_findUnique d (cs_projectId data) = None
             then (route_problem 404 ''https://1plan.dev/errors/not-found'' ''Project Not Found''
                     (''Project with ID '' @ cs_projectId data @ '' not found'') requestId [], d)
             else if sprint_by_code d (cs_projectId data) (cs_code data) \<noteq> None
             then (route_problem 409 ''https://1plan.dev/errors/conflict'' ''Sprint Already Exists''
                     (''Sprint '' @ cs_code data @ '' already exists in project '' @
                      cs_projectId data) requestId [], d)
             else if (case (nonempty (cs_startDate data), nonempty (cs_endDate data)) of
                        (Some s, Some e) \<Rightarrow> end_not_after_start (js_Date P s) (js_Date P e)
                      | _ \<Rightarrow> False)
             then (date_problem req, d)
             else (case transaction (create_sprint_tx P data) d of
                     (Inl e, d') \<Rightarrow> (on_error e req, d')
                   | (Inr (row, rows), d') \<Rightarrow> (ok 201 (SprintBody row rows), d')))"

text \<open>PATCH /sprints/:id.\<close>

definition update_changes :: "update_sprint_input \<Rightarrow> sprint_changes" where
  "update_changes u =
     \<lparr>ch_code = nonempty (us_code u), ch_name = nonempty (us_name u),
      ch_status = nonempty (us_status u),
      ch_startDate = (case us_startDate u of None \<Rightarrow> None | Some s \<Rightarrow> Some (Some s)),
      ch_endDate = (case us_endDate u of None \<Rightarrow> None | Some s \<Rightarrow> Some (Some s))\<rparr>"

definition update_sprint_tx :: "platform \<Rightarrow> string \<Rightarrow> update_sprint_input \<Rightarrow> item_row list \<Rightarrow>
    db \<Rightarrow> error + ((sprint_row \<times> item_row list) \<times> db)" where
  "update_sprint_tx P i u existing_items d0 =
     (case sprint_update P i (update_changes u) d0 of
        Inl e \<Rightarrow> Inl e
      | Inr (row, d1) \<Rightarrow>
          (case us_items u of
             None \<Rightarrow> Inr ((row, existing_items), d1)
           | Some its \<Rightarrow>
               (case create_items P i 0 its (item_deleteMany i d1) of
                  Inl e \<Rightarrow> Inl e
                | Inr (rows, d2) \<Rightarrow> Inr ((row, rows), d2))))"

text \<open>
  The dates the update handler compares: \<open>updates.x ? new Date(updates.x) : existing.x\<close>.
\<close>

definition mixed_date :: "platform \<Rightarrow> string option \<Rightarrow> int option \<Rightarrow> int option" where
  "mixed_date P upd old = (case nonempty upd of Some s \<Rightarrow> js_Date P s | None \<Rightarrow> old)"

text \<open>\<open>updates.code && updates.code !== existingSprint.code\<close> and the code is taken in the project.\<close>

definition code_conflict :: "db \<Rightarrow> sprint_row \<Rightarrow> string option \<Rightarrow> bool" where
  "code_conflict d existing c = (case nonempty c of
      Some x \<Rightarrow> x \<noteq> spr_code existing \<and> sprint_by_code d (spr_projectId existing) x \<noteq> None
    | None \<Rightarrow> False)"

definition patch_sprints :: "platform \<Rightarrow> request \<Rightarrow> db \<Rightarrow> response \<times> db" where
  "patch_sprints P req d =
     (let requestId = r_headers req ''x-request-id'';
          i = r_params_id req;
          on_error = sprint_catch ''Request body contains invalid data''
                       ''An unexpected error occurred while updating the sprint''
      in case UpdateSprintSchema P (r_body req) of
           Inl is \<Rightarrow> (on_error (ZodError is) req, d)
         | Inr u \<Rightarrow>
             (case sprint_by_id d i of
                None \<Rightarrow>
                  (route_problem 404 ''https://1plan.dev/errors/not-found'' ''Sprint Not Found''
                     (''Sprint with ID '' @ i @ '' not found'') requestId [], d)
              | Some existing \<Rightarrow>
                  if code_conflict d existing (us_code u)
                  then (route_problem 409 ''https://1plan.dev/errors/conflict''
                          ''Sprint Code Conflict''
                          (''Sprint '' @ (case us_code u of Some c \<Rightarrow> c | None \<Rightarrow> []) @
                           '' already exists in this project'')
                          requestId [], d)
                  else if end_not_after_start
                            (mixed_date P (us_startDate u) (spr_startDate existing))
                            (mixed_date P (us_endDate u) (spr_endDate existing))
                  then (date_problem req, d)
                  else (case transaction (update_sprint_tx P i u (items_of d i)) d of
                          (Inl e, d') \<Rightarrow> (on_error e req, d')
                        | (Inr (row, rows), d') \<Rightarrow> (ok 200 (SprintBody row rows), d'))))"

text \<open>GET /sprints.\<close>

record list_sprints_query =
  lq_projectId :: "string option"
  lq_status :: "string option"
  lq_limit :: jsnum
  lq_offset :: jsnum
  lq_sortBy :: string
  lq_sortOrder :: string

definition qval :: "string option \<Rightarrow> jsval" where
  "qval x = (case x of None \<Rightarrow> Undefined | Some s \<Rightarrow> JStr s)"

definition ListSprintsQuerySchema :: "platform \<Rightarrow> (string \<rightharpoonup> string) \<Rightarrow> list_sprints_query parsed" where
  "ListSprintsQuerySchema P q =
     (case (at_path (Key ''status'') (z_optional (z_enum sprintStatuses) (qval (q ''status''))),
            at_path (Key ''limit'')
              (case q ''limit'' of None \<Rightarrow> Inr (Fin 20)
               | Some s \<Rightarrow> z_coerce_number P 1 (Some 100) s),
            at_path (Key ''offset'')
              (case q ''offset'' of None \<Rightarrow> Inr (Fin 0)
               | Some s \<Rightarrow> z_coerce_number P 0 None s),
            at_path (Key ''sortBy'')
              (z_default (z_enum [''createdAt'', ''updatedAt'', ''name'', ''code'', ''startDate''])
                 ''updatedAt'' (qval (q ''sortBy''))),
            at_path (Key ''sortOrder'')
              (z_default (z_enum [''asc'', ''desc'']) ''desc'' (qval (q ''sortOrder'')))) of
        (Inr st, Inr l, Inr off, Inr sb, Inr so) \<Rightarrow>
          Inr \<lparr>lq_projectId = q ''projectId'', lq_status = st, lq_limit = l, lq_offset = off,
               lq_sortBy = sb, lq_sortOrder = so\<rparr>
      | (rst, rl, roff, rsb, rso) \<Rightarrow>
          Inl (issues_of rst @ issues_of rl @ issues_of roff @ issues_of rsb @ issues_of rso))"

definition sprint_where :: "string option \<Rightarrow> string option \<Rightarrow> sprint_row \<Rightarrow> bool" where
  "sprint_where pid st x =
     ((case pid of Some p \<Rightarrow> spr_projectId x = p | None \<Rightarrow> True) \<and>
      (case st of Some s \<Rightarrow> spr_status x = s | None \<Rightarrow> True))"

definition sprint_count :: "string option \<Rightarrow> string option \<Rightarrow> db \<Rightarrow> nat" where
  "sprint_count pid st d = length (filter (sprint_where pid st) (sprints d))"

definition order_sprints :: "string \<Rightarrow> string \<Rightarrow> sprint_row list \<Rightarrow> sprint_row list option" where
  "order_sprints f dir xs =
     (if dir \<noteq> ''asc'' \<and> dir \<noteq> ''desc'' then None
      else if f = ''createdAt'' then Some (order_by spr_createdAt dir xs)
      else if f = ''updatedAt'' then Some (order_by spr_updatedAt dir xs)
      else if f = ''name'' then Some (order_by spr_name dir xs)
      else if f = ''code'' then Some (order_by spr_code dir xs)
      else if f = ''startDate'' then Some (order_by spr_startDate dir xs)
      else None)"

text \<open>
  \<open>take\<close> and \<open>skip\<close> are integers: of a number with a fraction the store client uses
  the whole part (\<open>take: 1.5\<close> returns one row). Both arrive validated, \<open>take\<close> at least
  1 and \<open>skip\<close> at least 0, so the paging from the end that a negative \<open>take\<close> asks for
  and the bound of the store's integer type are left out; an infinite \<open>skip\<close> is refused.
\<close>

definition as_nat :: "jsnum \<Rightarrow> nat option" where
  "as_nat n = (case n of
      Fin r \<Rightarrow> if 0 \<le> r then Some (nat \<lfloor>r\<rfloor>) else None
    | _ \<Rightarrow> None)"

definition sprint_findMany :: "platform \<Rightarrow> string option \<Rightarrow> string option \<Rightarrow> string \<Rightarrow> string \<Rightarrow>
    jsnum \<Rightarrow> jsnum \<Rightarrow> db \<Rightarrow> error + sprint_row list" where
  "sprint_findMany P pid st sortBy sortOrder tk sk d =
     (case (as_nat tk, as_nat sk,
            order_sprints sortBy sortOrder (filter (sprint_where pid st) (sprints d))) of
        (Some t, Some s, Some ys) \<Rightarrow> Inr (take t (drop s ys))
      | _ \<Rightarrow> Inl (StoreError P))"

definition sprint_entry_of :: "db \<Rightarrow> sprint_row \<Rightarrow> sprint_entry" where
  "sprint_entry_of d x =
     \<lparr>se_sprint = x,
      se_project = map_option (\<lambda>p. (proj_id p, proj_name p)) (project_findUnique d (spr_projectId x)),
      se_itemCount = length (items_of d (spr_id x)),
      se_completedItemCount = length (filter item_checked (items_of d (spr_id x)))\<rparr>"

definition get_sprints :: "platform \<Rightarrow> request \<Rightarrow> db \<Rightarrow> response \<times> db" where
  "get_sprints P req d =
     (let on_error = sprint_catch ''Query parameters contain invalid data''
                       ''An unexpected error occurred while listing sprints''
      in case ListSprintsQuerySchema P (r_query req) of
           Inl is \<Rightarrow> (on_error (ZodError is) req, d)
         | Inr q \<Rightarrow>
             (let pid = nonempty (lq_projectId q); st = nonempty (lq_status q);
                  n = sprint_count pid st d
              in case sprint_findMany P pid st (lq_sortBy q) (lq_sortOrder q)
                        (lq_limit q) (lq_offset q) d of
                   Inl e \<Rightarrow> (on_error e req, d)
                 | Inr rows \<Rightarrow>
                     (ok 200 (SprintList (map (sprint_entry_of d) rows) n
                                (lq_limit q) (lq_offset q)), d)))"


section \<open>The gateway (mcp-gateway: lib/api-client.ts, tools/documents.ts, types/mcp-types.ts)\<close>

text \<open>
  The gateway's configuration, and what it takes from outside the repository: the
  pattern of \<open>z.string().uuid()\<close> and the value \<open>randomUUID()\<close> returns for the request.
\<close>

record gateway =
  g_baseUrl :: string
  g_token :: "string option"
  g_uuid :: "string \<Rightarrow> bool"
  g_randomUUID :: string

record api_options =
  o_body :: jsval
  o_headers :: "(string \<times> string) list"
  o_requestId :: "string option"
  o_idempotencyKey :: "string option"

record http_request =
  h_method :: string
  h_url :: string
  h_headers :: "string \<rightharpoonup> string"
  h_body :: "jsval option"

text \<open>An object literal followed by a spread: the properties of the spread are written last.\<close>

fun assign :: "(string \<rightharpoonup> string) \<Rightarrow> (string \<times> string) list \<Rightarrow> (string \<rightharpoonup> string)" where
  "assign m [] = m"
| "assign m ((k, v) # kvs) = assign (m(k \<mapsto> v)) kvs"

text \<open>ApiClient.request, up to the call of \<open>fetch\<close>: the request it sends.\<close>

definition api_request :: "gateway \<Rightarrow> string \<Rightarrow> string \<Rightarrow> api_options \<Rightarrow> http_request" where
  "api_request G method path opts =
     (let requestId = (case nonempty (o_requestId opts) of Some r \<Rightarrow> r | None \<Rightarrow> g_randomUUID G);
          h0 = assign [''Content-Type'' \<mapsto> ''application/json'', ''X-Request-ID'' \<mapsto> requestId]
                 (o_headers opts);
          h1 = (case nonempty (g_token G) of
                  Some t \<Rightarrow> h0(''Authorization'' \<mapsto> ''Bearer '' @ t) | None \<Rightarrow> h0);
          h2 = (case nonempty (o_idempotencyKey opts) of
                  Some k \<Rightarrow> h1(''X-Idempotency-Key'' \<mapsto> k) | None \<Rightarrow> h1)
      in \<lparr>h_method = method, h_url = g_baseUrl G @ path, h_headers = h2,
          h_body = (if truthy (o_body opts) \<and> method \<noteq> ''GET'' then Some (o_body opts) else None)\<rparr>)"

text \<open>The tool arguments of create_document: the document schema merged with toolArgsSchema.\<close>

record create_document_args =
  ca_projectId :: string
  ca_kind :: string
  ca_title :: string
  ca_content :: string
  ca_slug :: "string option"
  ca_requestId :: "string option"
  ca_idempotencyKey :: "string option"

definition createDocumentArgs :: "gateway \<Rightarrow> jsval \<Rightarrow> create_document_args parsed" where
  "createDocumentArgs G v =
     (if \<not> is_object v then Inl [([], invalid_type)]
      else
        case (at_path (Key ''projectId'') (z_string [z_regex re_cuid] (field ''projectId'' v)),
              at_path (Key ''kind'') (z_enum documentKinds (field ''kind'' v)),
              at_path (Key ''title'') (z_string [z_min 1, z_max 200] (field ''title'' v)),
              at_path (Key ''content'') (z_string [z_min 1] (field ''content'' v)),
              at_path (Key ''slug'')
                (z_optional (z_string [z_min 1, z_max 100, z_regex re_slug]) (field ''slug'' v)),
              at_path (Key ''requestId'')
                (z_optional (z_string [z_regex (g_uuid G)]) (field ''requestId'' v)),
              at_path (Key ''idempotencyKey'')
                (z_optional (z_string []) (field ''idempotencyKey'' v))) of
          (Inr p, Inr k, Inr t, Inr c, Inr sl, Inr rid, Inr ik) \<Rightarrow>
            Inr \<lparr>ca_projectId = p, ca_kind = k, ca_title = t, ca_content = c, ca_slug = sl,
                 ca_requestId = rid, ca_idempotencyKey = ik\<rparr>
        | (rp, rk, rt, rc, rs, rr, ri) \<Rightarrow>
            Inl (issues_of rp @ issues_of rk @ issues_of rt @ issues_of rc @ issues_of rs @
                 issues_of rr @ issues_of ri))"

text \<open>
  handleCreateDocument with ApiClient.createDocument, up to the call of \<open>fetch\<close>: the
  request the tool sends, or the schema failure it raises.
\<close>

definition handleCreateDocument :: "gateway \<Rightarrow> jsval \<Rightarrow> issue list + http_request" where
  "handleCreateDocument G args =
     (case createDocumentArgs G args of
        Inl is \<Rightarrow> Inl is
      | Inr a \<Rightarrow>
          Inr (api_request G ''POST'' ''/documents''
                 \<lparr>o_body = JObj ([(''projectId'', JStr (ca_projectId a)), (''kind'', JStr (ca_kind a)),
                             (''title'', JStr (ca_title a)), (''content'', JStr (ca_content a))] @
                            (case ca_slug a of Some s \<Rightarrow> [(''slug'', JStr s)] | None \<Rightarrow> [])),
                  o_headers = [], o_requestId = ca_requestId a,
                  o_idempotencyKey = ca_idempotencyKey a\<rparr>))"

section \<open>Descriptions of the slug\<close>






text \<open>
  The slug in the words of the specification: the title lower-cased, every run of
  characters other than \<open>a-z\<close> and \<open>0-9\<close> replaced by a single hyphen, the hyphens at
  the two ends removed.
\<close>

definition slug_by_spec :: "string \<Rightarrow> string" where
  "slug_by_spec title =
     strip_edge_hyphens
       (replace_runs (\<lambda>c. \<not> (is_lower_az c \<or> is_digit c)) ''-'' (toLowerCase title))"



section \<open>Sample inputs\<close>

text \<open>
  A platform for the samples. It knows three dates and the numbers 1 and 1000, and its
  store refuses a sprint item with an order above 2147483647. Its store client reads
  the data of a document update when every property is a column of the table with a
  plain value: a text for \<open>id\<close>, \<open>projectId\<close>, \<open>title\<close> and \<open>content\<close>, one of the
  kinds for \<open>kind\<close>, a text or null for \<open>slug\<close>, the text of a date for \<open>createdAt\<close> and
  \<open>updatedAt\<close>.
\<close>

definition sample_date :: "string \<Rightarrow> int option" where
  "sample_date s =
     (if s = ''2025-01-01T00:00:00Z'' then Some 1735689600000
      else if s = ''2025-02-01T00:00:00Z'' then Some 1738368000000
      else if s = ''2025-03-01T00:00:00Z'' then Some 1740787200000 else None)"

definition plain_text :: "jsval \<Rightarrow> string option option" where
  "plain_text v = (case v of Undefined \<Rightarrow> Some None | JStr s \<Rightarrow> Some (Some s) | _ \<Rightarrow> None)"

definition plain_kind :: "jsval \<Rightarrow> string option option" where
  "plain_kind v = (case v of
      Undefined \<Rightarrow> Some None
    | JStr k \<Rightarrow> if k \<in> set documentKinds then Some (Some k) else None
    | _ \<Rightarrow> None)"

definition plain_slug :: "jsval \<Rightarrow> string option option option" where
  "plain_slug v = (case v of
      Undefined \<Rightarrow> Some None
    | JNull \<Rightarrow> Some (Some None)
    | JStr s \<Rightarrow> Some (Some (Some s))
    | _ \<Rightarrow> None)"

definition plain_date :: "jsval \<Rightarrow> int option option" where
  "plain_date v = (case v of
      Undefined \<Rightarrow> Some None
    | JStr s \<Rightarrow> (case sample_date s of Some t \<Rightarrow> Some (Some t) | None \<Rightarrow> None)
    | _ \<Rightarrow> None)"

definition document_columns :: "string list" where
  "document_columns = [''id'', ''projectId'', ''kind'', ''title'', ''content'', ''slug'',
     ''createdAt'', ''updatedAt'']"

definition plain_document_data :: "jsval \<Rightarrow> document_changes option" where
  "plain_document_data v = (case v of
      JObj kvs \<Rightarrow>
        if \<not> list_all (\<lambda>(k, x). k \<in> set document_columns) kvs then None
        else (case (plain_text (field ''id'' v), plain_text (field ''projectId'' v),
                    plain_kind (field ''kind'' v), plain_text (field ''title'' v),
                    plain_text (field ''content'' v), plain_slug (field ''slug'' v),
                    plain_date (field ''createdAt'' v), plain_date (field ''updatedAt'' v)) of
                (Some i, Some p, Some k, Some t, Some c, Some sl, Some ca, Some ua) \<Rightarrow>
                  Some \<lparr>dc_id = i, dc_projectId = p, dc_kind = k, dc_title = t, dc_content = c,
                        dc_slug = sl, dc_createdAt = ca, dc_updatedAt = ua\<rparr>
              | _ \<Rightarrow> None)
    | _ \<Rightarrow> None)"

definition example_platform :: platform where
  "example_platform =
     \<lparr>js_Number = (\<lambda>s. if s = ''1000'' then Fin 1000 else if s = ''1'' then Fin 1 else NaN),
      zod_datetime = (\<lambda>s. sample_date s \<noteq> None),
      js_Date = sample_date,
      now = 1750000000000,
      fresh = (\<lambda>k. ''cnew0000'' @ replicate k CHR ''x''),
      store_error_text = ''Invalid value provided. Expected Int, provided String.'',
      refuses_item = (\<lambda>txt chk ord. 2147483647 < ord),
      document_data = plain_document_data\<rparr>"

definition example_request :: request where
  "example_request = \<lparr>r_url = ''/api/v1/x'', r_id = ''req-1'', r_headers = Map.empty,
     r_params_id = [], r_query = Map.empty, r_body = Undefined\<rparr>"

definition example_project :: project_row where
  "example_project = \<lparr>proj_id = ''cproject1'', proj_name = ''Test Project'',
     proj_createdAt = 0, proj_updatedAt = 0\<rparr>"

definition example_db :: db where
  "example_db = \<lparr>projects = [example_project], documents = [], sprints = [], sprintItems = []\<rparr>"

definition document_body :: "string \<Rightarrow> string \<Rightarrow> jsval" where
  "document_body pid title = JObj [(''projectId'', JStr pid), (''kind'', JStr ''FREEFORM''),
     (''title'', JStr title), (''content'', JStr ''text'')]"

definition example_gateway :: gateway where
  "example_gateway = \<lparr>g_baseUrl = ''http://localhost:4000/api/v1'', g_token = None,
     g_uuid = (\<lambda>s. length s = 36), g_randomUUID = ''7d444840-9dc0-11d1-b245-5ffdce74fad2''\<rparr>"

definition example_document :: "string \<Rightarrow> string \<Rightarrow> document_row" where
  "example_document i slug = \<lparr>doc_id = i, doc_projectId = ''cproject1'', doc_kind = ''FREEFORM'',
     doc_title = ''Notes'', doc_content = ''text'', doc_slug = Some slug,
     doc_createdAt = 0, doc_updatedAt = 0\<rparr>"

definition example_docs_db :: db where
  "example_docs_db = example_db\<lparr>documents :=
     [example_document ''cdocument1'' ''notes'', example_document ''cdocument2'' ''plan'']\<rparr>"

definition ratelimit_request :: request where
  "ratelimit_request = example_request\<lparr>r_body := document_body ''cproject1'' ''Ratelimit''\<rparr>"

definition ratelimit_document :: document_row where
  "ratelimit_document = \<lparr>doc_id = ''cnew0000'', doc_projectId = ''cproject1'', doc_kind = ''FREEFORM'',
        doc_title = ''Ratelimit'', doc_content = ''text'', doc_slug = Some ''ratelimit'',
        doc_createdAt = 1750000000000, doc_updatedAt = 1750000000000\<rparr>"

definition slug_patch_request :: request where
  "slug_patch_request = example_request\<lparr>r_params_id := ''cdocument1'',
     r_body := JObj [(''slug'', JStr ''Invalid Slug!'')]\<rparr>"

definition limit_request :: "string \<Rightarrow> request" where
  "limit_request l = example_request\<lparr>r_query := [''limit'' \<mapsto> l]\<rparr>"

definition keyed_args :: jsval where
  "keyed_args = JObj [(''projectId'', JStr ''cproject1''), (''kind'', JStr ''FREEFORM''),
     (''title'', JStr ''Notes''), (''content'', JStr ''text''),
     (''requestId'', JStr ''7d444840-9dc0-11d1-b245-5ffdce74fad3''),
     (''idempotencyKey'', JStr ''key-1'')]"

definition keyed_options :: api_options where
  "keyed_options = \<lparr>o_body = document_body ''cproject1'' ''Notes'', o_headers = [],
     o_requestId = Some ''7d444840-9dc0-11d1-b245-5ffdce74fad3'',
     o_idempotencyKey = Some ''key-1''\<rparr>"

definition example_sprint :: sprint_row where
  "example_sprint = \<lparr>spr_id = ''csprint001'', spr_projectId = ''cproject1'', spr_code = ''SPR-001'',
     spr_name = ''Foundation'', spr_status = ''PLANNED'', spr_startDate = Some 1735689600000,
     spr_endDate = Some 1738368000000, spr_createdAt = 0, spr_updatedAt = 0\<rparr>"

definition example_item :: item_row where
  "example_item = \<lparr>item_id = ''citem0001'', item_sprintId = ''csprint001'', item_text = ''old'',
     item_checked = True, item_order = 0, item_createdAt = 0, item_updatedAt = 0\<rparr>"

definition example_sprint_db :: db where
  "example_sprint_db = example_db\<lparr>sprints := [example_sprint], sprintItems := [example_item]\<rparr>"

definition three_items :: jsval where
  "three_items = JArr [JObj [(''text'', JStr ''a''), (''order'', JNum 0)],
                       JObj [(''text'', JStr ''b'')],
                       JObj [(''text'', JStr ''c''), (''order'', JNum 5)]]"

definition create_sprint_request :: request where
  "create_sprint_request = example_request\<lparr>r_body :=
     JObj [(''projectId'', JStr ''cproject1''), (''code'', JStr ''SPR-002''),
           (''name'', JStr ''Gateway''), (''items'', three_items)]\<rparr>"

definition backwards_sprint_request :: request where
  "backwards_sprint_request = example_request\<lparr>r_body :=
     JObj [(''projectId'', JStr ''cproject1''), (''code'', JStr ''SPR-002''),
           (''name'', JStr ''Gateway''), (''startDate'', JStr ''2025-02-01T00:00:00Z''),
           (''endDate'', JStr ''2025-01-01T00:00:00Z'')]\<rparr>"

definition replace_items_request :: request where
  "replace_items_request = example_request\<lparr>r_params_id := ''csprint001'',
     r_body := JObj [(''name'', JStr ''Renamed''), (''items'', three_items)]\<rparr>"

definition overflow_request :: request where
  "overflow_request = example_request\<lparr>r_params_id := ''csprint001'',
     r_body := JObj [(''name'', JStr ''Renamed''),
       (''items'', JArr [JObj [(''text'', JStr ''a'')],
                         JObj [(''text'', JStr ''b''), (''order'', JNum 3000000000)]])]\<rparr>"

definition late_start_request :: request where
  "late_start_request = example_request\<lparr>r_params_id := ''csprint001'',
     r_body := JObj [(''startDate'', JStr ''2025-03-01T00:00:00Z'')]\<rparr>"

definition three_inputs :: "sprint_item_input list" where
  "three_inputs = [\<lparr>si_text = ''a'', si_checked = False, si_order = 0\<rparr>,
                   \<lparr>si_text = ''b'', si_checked = False, si_order = 0\<rparr>,
                   \<lparr>si_text = ''c'', si_checked = False, si_order = 5\<rparr>]"

definition overflow_inputs :: "sprint_item_input list" where
  "overflow_inputs = [\<lparr>si_text = ''a'', si_checked = False, si_order = 0\<rparr>,
                      \<lparr>si_text = ''b'', si_checked = False, si_order = 3000000000\<rparr>]"

definition created_sprint_input :: create_sprint_input where
  "created_sprint_input = \<lparr>cs_projectId = ''cproject1'', cs_code = ''SPR-002'',
     cs_name = ''Gateway'', cs_status = ''PLANNED'', cs_startDate = None, cs_endDate = None,
     cs_items = three_inputs\<rparr>"

definition backwards_sprint_input :: create_sprint_input where
  "backwards_sprint_input = \<lparr>cs_projectId = ''cproject1'', cs_code = ''SPR-002'',
     cs_name = ''Gateway'', cs_status = ''PLANNED'',
     cs_startDate = Some ''2025-02-01T00:00:00Z'', cs_endDate = Some ''2025-01-01T00:00:00Z'',
     cs_items = []\<rparr>"

definition renamed_input :: "sprint_item_input list \<Rightarrow> update_sprint_input" where
  "renamed_input its = \<lparr>us_code = None, us_name = Some ''Renamed'', us_status = None,
     us_startDate = None, us_endDate = None, us_items = Some its\<rparr>"

definition late_start_input :: update_sprint_input where
  "late_start_input = \<lparr>us_code = None, us_name = None, us_status = None,
     us_startDate = Some ''2025-03-01T00:00:00Z'', us_endDate = None, us_items = None\<rparr>"

section \<open>The slug generator\<close>












section \<open>Evaluation of the samples\<close>

lemmas slug_eval = generateSlug_def slug_by_spec_def toLowerCase_def lower_char_def is_upper_def
  is_slug_char_def is_space_def is_lower_az_def is_digit_def strip_edge_hyphens_def

lemmas zod_eval = is_object_def field_def z_string_def z_enum_def z_default_def z_optional_def
  z_array_def at_path_def issues_of_def z_min_def z_max_def z_regex_def z_boolean_def z_int_min0_def
  re_cuid_def re_slug_def re_sprint_code_def documentKinds_def sprintStatuses_def

lemmas sample_eval = example_platform_def example_request_def example_project_def example_db_def
  example_gateway_def example_document_def example_docs_db_def document_body_def

lemma create_sprint_empty:
  "CreateSprintSchema example_platform (JObj []) =
     Inl [([Key ''projectId''], invalid_type), ([Key ''code''], invalid_type), ([Key ''name''], invalid_type)]"
  by (simp add: CreateSprintSchema_def zod_eval)

lemma update_sprint_bad:
  "UpdateSprintSchema example_platform (JObj [(''name'', JStr [])]) = Inl [([Key ''name''], too_small)]"
  by (simp add: UpdateSprintSchema_def zod_eval)

lemma list_sprints_bad:
  "ListSprintsQuerySchema example_platform [''limit'' \<mapsto> ''1000''] = Inl [([Key ''limit''], too_big)]"
  by (simp add: ListSprintsQuerySchema_def zod_eval qval_def z_coerce_number_def jsnum_less_def
      jsnum_greater_def example_platform_def Let_def)

lemma create_document_empty:
  "createDocumentSchema (JObj []) =
     Inl [([Key ''projectId''], invalid_type), ([Key ''kind''], invalid_type),
          ([Key ''title''], invalid_type), ([Key ''content''], invalid_type)]"
  by (simp add: createDocumentSchema_def zod_eval)


section \<open>Status codes of errorHandler\<close>

lemma status_errorHandler: "status (errorHandler e req) = pd_status (problemDetails e req)"
  by (simp add: errorHandler_def Let_def)


lemma status_conflict:
  "status (errorHandler (ConflictError m) req) = (if rate_limit_test m then 429 else 409)"
  by (simp add: status_errorHandler problemDetails_def ConflictError_def truthy_status_def)



section \<open>Schema failures and their responses\<close>

text \<open>
  C1, as the code has it. A schema failure that reaches errorHandler is answered with
  status 400 and the title \<open>Validation Error\<close>, in the problem shape with the instance
  and the request identifier. The sprint routes catch their own schema failures and
  answer 422 with the title \<open>Validation Failed\<close>; POST /documents answers 400 with the
  object \<open>{error: 'Validation failed', details}\<close>. No request changes the store.
\<close>

theorem schema_failure_answers:
  "status (errorHandler (ZodError is) req) = 400 \<and>
   (\<exists>pd. body (errorHandler (ZodError is) req) = Problem pd \<and> pd_title pd = ''Validation Error'' \<and>
      pd_status pd = 400 \<and> pd_instance pd = Some (r_url req) \<and> pd_requestId pd = Some (r_id req)) \<and>
   (CreateSprintSchema P (r_body req) = Inl i1 \<longrightarrow>
      post_sprints P req d =
        (route_problem 422 ''https://1plan.dev/errors/validation-failed'' ''Validation Failed''
           ''Request body contains invalid data'' (r_headers req ''x-request-id'')
           [(''issues'', XIssues i1)], d)) \<and>
   (UpdateSprintSchema P (r_body req) = Inl i2 \<longrightarrow>
      patch_sprints P req d =
        (route_problem 422 ''https://1plan.dev/errors/validation-failed'' ''Validation Failed''
           ''Request body contains invalid data'' (r_headers req ''x-request-id'')
           [(''issues'', XIssues i2)], d)) \<and>
   (ListSprintsQuerySchema P (r_query req) = Inl i3 \<longrightarrow>
      get_sprints P req d =
        (route_problem 422 ''https://1plan.dev/errors/validation-failed'' ''Validation Failed''
           ''Query parameters contain invalid data'' (r_headers req ''x-request-id'')
           [(''issues'', XIssues i3)], d)) \<and>
   (createDocumentSchema (r_body req) = Inl i4 \<longrightarrow>
      post_documents P req d = (ok 400 (ValidationFailed i4), d))"
  by (simp add: errorHandler_def problemDetails_def Let_def post_sprints_def patch_sprints_def
      get_sprints_def post_documents_def sprint_catch_def)

text \<open>
  The theorem at four requests that fail their schema: an empty sprint, a sprint update
  with an empty name, a sprint list with limit 1000, an empty document.
\<close>

theorem schema_failure_answers_witness:
  "post_sprints example_platform (example_request\<lparr>r_body := JObj []\<rparr>) example_db =
     (route_problem 422 ''https://1plan.dev/errors/validation-failed'' ''Validation Failed''
        ''Request body contains invalid data'' None
        [(''issues'', XIssues [([Key ''projectId''], invalid_type), ([Key ''code''], invalid_type),
                               ([Key ''name''], invalid_type)])], example_db) \<and>
   patch_sprints example_platform (example_request\<lparr>r_body := JObj [(''name'', JStr [])]\<rparr>) example_db =
     (route_problem 422 ''https://1plan.dev/errors/validation-failed'' ''Validation Failed''
        ''Request body contains invalid data'' None
        [(''issues'', XIssues [([Key ''name''], too_small)])], example_db) \<and>
   get_sprints example_platform (example_request\<lparr>r_query := [''limit'' \<mapsto> ''1000'']\<rparr>) example_db =
     (route_problem 422 ''https://1plan.dev/errors/validation-failed'' ''Validation Failed''
        ''Query parameters contain invalid data'' None
        [(''issues'', XIssues [([Key ''limit''], too_big)])], example_db) \<and>
   post_documents example_platform (example_request\<lparr>r_body := JObj []\<rparr>) example_db =
     (ok 400 (ValidationFailed [([Key ''projectId''], invalid_type), ([Key ''kind''], invalid_type),
          ([Key ''title''], invalid_type), ([Key ''content''], invalid_type)]), example_db)"
  using schema_failure_answers[of "[]" "example_request\<lparr>r_body := JObj []\<rparr>" example_platform _ example_db _ _ _]
    schema_failure_answers[of "[]" "example_request\<lparr>r_body := JObj [(''name'', JStr [])]\<rparr>" example_platform _ example_db _ _ _]
    schema_failure_answers[of "[]" "example_request\<lparr>r_query := [''limit'' \<mapsto> ''1000'']\<rparr>" example_platform _ example_db _ _ _]
    create_sprint_empty update_sprint_bad list_sprints_bad create_document_empty
  by (simp add: example_request_def)

text \<open>
  C1 as stated fails: POST /sprints with the body \<open>{}\<close> fails the schema and is
  answered with status 422 and the title \<open>Validation Failed\<close>, not 400 and
  \<open>Validation Error\<close>.
\<close>

theorem sprint_schema_failure_counterexample:
  "CreateSprintSchema example_platform (JObj []) =
     Inl [([Key ''projectId''], invalid_type), ([Key ''code''], invalid_type), ([Key ''name''], invalid_type)] \<and>
   status (fst (post_sprints example_platform (example_request\<lparr>r_body := JObj []\<rparr>) example_db)) = 422 \<and>
   (\<exists>pd. body (fst (post_sprints example_platform (example_request\<lparr>r_body := JObj []\<rparr>) example_db)) = Problem pd
      \<and> pd_title pd = ''Validation Failed'' \<and> pd_status pd = 422)"
  using create_sprint_empty
  by (simp add: post_sprints_def Let_def sprint_catch_def route_problem_def example_request_def)

section \<open>The stored slug\<close>







section \<open>Slug conflicts\<close>

lemma create_document_ratelimit:
  "createDocumentSchema (document_body ''cproject1'' ''Ratelimit'') =
     Inr \<lparr>cd_projectId = ''cproject1'', cd_kind = ''FREEFORM'', cd_title = ''Ratelimit'',
          cd_content = ''text'', cd_slug = None\<rparr>"
  by (simp add: createDocumentSchema_def document_body_def zod_eval slug_eval)

lemma slug_ratelimit: "generateSlug ''Ratelimit'' = ''ratelimit''"
  by (simp add: slug_eval)

lemma ratelimit_first:
  "post_documents example_platform ratelimit_request example_db =
     (ok 201 (DocumentBody ratelimit_document), example_db\<lparr>documents := [ratelimit_document]\<rparr>)"
  by (simp add: post_documents_def ratelimit_request_def create_document_ratelimit example_request_def
      slug_for_def slug_ratelimit example_db_def project_findUnique_def example_project_def
      document_create_def slug_taken_def Let_def example_platform_def ratelimit_document_def)

lemma ratelimit_message: "rate_limit_test (slug_conflict_message ''ratelimit'')"
  by (simp add: slug_conflict_message_def rate_limit_here_def slug_eval)

text \<open>
  Each project has its own slugs: while the message of the conflict does not match the
  pattern errorHandler uses for rate limits, creating a document is answered 409 exactly
  when the project already holds the slug, and 201 otherwise.
\<close>

lemma document_conflict_general:
  assumes "createDocumentSchema (r_body req) = Inr data"
    and "project_findUnique d (cd_projectId data) \<noteq> None"
    and "\<not> rate_limit_test (slug_conflict_message (slug_for data))"
  shows "post_documents P req d = (r, d') \<Longrightarrow>
         (status r = 409 \<longleftrightarrow> slug_taken d (cd_projectId data) (slug_for data) None) \<and>
         (status r = 201 \<longleftrightarrow> \<not> slug_taken d (cd_projectId data) (slug_for data) None) \<and>
         (status r = 409 \<longrightarrow> d' = d)"
  using assms
  by (auto simp: post_documents_def Let_def document_create_def status_conflict ok_def split: if_splits)

text \<open>
  C6 at the title \<open>Ratelimit\<close>, created twice in the sample project. The first request
  is answered 201 and stores the slug \<open>ratelimit\<close>. The second stores nothing, and its
  conflict is answered with status 429 and the title \<open>Rate Limit Exceeded\<close>: the message
  holds the slug, and errorHandler takes any message that matches \<open>/rate\s*limit/i\<close> for
  a rate limit before it looks at the status code 409 of the error.
\<close>

theorem ratelimit_slug_conflict_is_429:
  "post_documents example_platform ratelimit_request example_db =
     (ok 201 (DocumentBody ratelimit_document), example_db\<lparr>documents := [ratelimit_document]\<rparr>) \<and>
   snd (post_documents example_platform ratelimit_request (example_db\<lparr>documents := [ratelimit_document]\<rparr>)) =
     example_db\<lparr>documents := [ratelimit_document]\<rparr> \<and>
   status (fst (post_documents example_platform ratelimit_request
                  (example_db\<lparr>documents := [ratelimit_document]\<rparr>))) = 429 \<and>
   (\<exists>pd. body (fst (post_documents example_platform ratelimit_request
                  (example_db\<lparr>documents := [ratelimit_document]\<rparr>))) = Problem pd \<and>
         pd_title pd = ''Rate Limit Exceeded'')"
  using ratelimit_first ratelimit_message
  by (simp add: post_documents_def ratelimit_request_def create_document_ratelimit example_request_def
      slug_for_def slug_ratelimit example_db_def project_findUnique_def example_project_def
      document_create_def slug_taken_def Let_def ratelimit_document_def
      errorHandler_def problemDetails_def ConflictError_def)

section \<open>Document routes without validation\<close>

lemma update_schema_rejects:
  "updateDocumentSchema (r_body slug_patch_request) = Inl [([Key ''slug''], invalid_string)]"
  by (simp add: updateDocumentSchema_def slug_patch_request_def example_request_def zod_eval slug_eval)

lemma slug_patch_data:
  "document_data example_platform (JObj [(''slug'', JStr ''Invalid Slug!'')]) =
     Some \<lparr>dc_id = None, dc_projectId = None, dc_kind = None, dc_title = None, dc_content = None,
           dc_slug = Some (Some ''Invalid Slug!''), dc_createdAt = None, dc_updatedAt = None\<rparr>"
  by (simp add: example_platform_def plain_document_data_def document_columns_def field_def
      plain_text_def plain_kind_def plain_slug_def plain_date_def)

text \<open>
  C7 at PATCH /documents/cdocument1 with the body \<open>{slug: 'Invalid Slug!'}\<close>:
  updateDocumentSchema rejects the slug, the route never applies that schema, answers
  200 and stores the slug.
\<close>

theorem unvalidated_patch_is_stored:
  "updateDocumentSchema (r_body slug_patch_request) = Inl [([Key ''slug''], invalid_string)] \<and>
   status (fst (patch_documents example_platform slug_patch_request example_docs_db)) = 200 \<and>
   map doc_slug (documents (snd (patch_documents example_platform slug_patch_request example_docs_db))) =
     [Some ''Invalid Slug!'', Some ''plan'']"
  using update_schema_rejects slug_patch_data
  by (simp add: patch_documents_def slug_patch_request_def example_request_def Let_def field_def
      truthy_def text_ok_def document_update_def changed_def example_docs_db_def example_db_def
      example_document_def slug_taken_def ok_def)

lemma store_text_no_rate_limit: "\<not> rate_limit_test (store_error_text example_platform)"
  by (simp add: example_platform_def rate_limit_here_def slug_eval)

lemmas client_eval = example_platform_def plain_document_data_def document_columns_def field_def
  plain_text_def plain_kind_def plain_slug_def plain_date_def sample_date_def documentKinds_def

lemma unknown_property_data:
  "document_data example_platform (JObj [(''colour'', JStr ''red'')]) = None"
  by (simp add: client_eval)

lemma project_data:
  "document_data example_platform (JObj [(''projectId'', JStr ''cproject2'')]) =
     Some \<lparr>dc_id = None, dc_projectId = Some ''cproject2'', dc_kind = None, dc_title = None,
           dc_content = None, dc_slug = None, dc_createdAt = None, dc_updatedAt = None\<rparr>"
  by (simp add: client_eval)

text \<open>
  The sample store client on two other bodies: a property that is no column is refused
  and the request answered 500 with nothing stored; a \<open>projectId\<close> in the body moves the
  document to that project.
\<close>

lemma patch_unknown_property:
  "status (fst (patch_documents example_platform
     (example_request\<lparr>r_params_id := ''cdocument1'', r_body := JObj [(''colour'', JStr ''red'')]\<rparr>)
     example_docs_db)) = 500 \<and>
   snd (patch_documents example_platform
     (example_request\<lparr>r_params_id := ''cdocument1'', r_body := JObj [(''colour'', JStr ''red'')]\<rparr>)
     example_docs_db) = example_docs_db"
  using unknown_property_data store_text_no_rate_limit
  by (simp add: patch_documents_def Let_def truthy_def text_ok_def field_def document_update_def
      StoreError_def errorHandler_def problemDetails_def truthy_status_def example_request_def)

lemma patch_project:
  "map doc_projectId (documents (snd (patch_documents example_platform
     (example_request\<lparr>r_params_id := ''cdocument1'', r_body := JObj [(''projectId'', JStr ''cproject2'')]\<rparr>)
     (example_docs_db\<lparr>projects := [example_project, example_project\<lparr>proj_id := ''cproject2''\<rparr>]\<rparr>)))) =
   [''cproject2'', ''cproject1'']"
  using project_data
  by (simp add: patch_documents_def Let_def truthy_def text_ok_def field_def document_update_def
      changed_def example_docs_db_def example_db_def example_document_def example_project_def
      slug_taken_def project_findUnique_def example_request_def)

text \<open>
  C8 at GET /documents?limit=1000: the route passes the text of the query to the store,
  whose refusal errorHandler answers with status 500, no validation failure; the sprint
  list answers the same query with 422.
\<close>

theorem documents_limit_unvalidated:
  "status (fst (get_documents example_platform (limit_request ''1000'') example_docs_db)) = 500 \<and>
   (\<exists>pd. body (fst (get_documents example_platform (limit_request ''1000'') example_docs_db)) = Problem pd \<and>
      pd_title pd = ''Internal Server Error'') \<and>
   status (fst (get_sprints example_platform (limit_request ''1000'') example_docs_db)) = 422"
  using store_text_no_rate_limit list_sprints_bad
  by (simp add: get_documents_def limit_request_def example_request_def Let_def nonempty_def
      document_findMany_def errorHandler_def problemDetails_def StoreError_def truthy_status_def
      get_sprints_def sprint_catch_def route_problem_def)

text \<open>
  C4 at GET /documents over two stored documents. With \<open>limit=1\<close> the answer is the
  error 500 and no page; without a query both documents are returned, with total 2 and
  neither limit nor offset in the body.
\<close>

theorem documents_page_ignores_limit:
  "status (fst (get_documents example_platform (limit_request ''1'') example_docs_db)) = 500 \<and>
   fst (get_documents example_platform example_request example_docs_db) =
     ok 200 (DocumentList [example_document ''cdocument1'' ''notes'', example_document ''cdocument2'' ''plan'']
               2 None None)"
  using store_text_no_rate_limit
  by (simp add: get_documents_def limit_request_def example_request_def Let_def nonempty_def
      document_findMany_def errorHandler_def problemDetails_def StoreError_def truthy_status_def
      document_count_def document_where_def example_docs_db_def example_db_def numeral_2_eq_2)

section \<open>Headers of the gateway's requests\<close>

lemma assign_absent: "map_of kvs k = None \<Longrightarrow> assign m kvs k = m k"
  by (induction kvs arbitrary: m) (auto split: if_splits)

lemma assign_dom: "k \<in> dom m \<Longrightarrow> k \<in> dom (assign m kvs)"
proof (induction kvs arbitrary: m)
  case Nil
  then show ?case by simp
next
  case (Cons kv kvs)
  obtain a b where kv: "kv = (a, b)" by (cases kv)
  have "k \<in> dom (m(a \<mapsto> b))" using Cons.prems by auto
  from Cons.IH[OF this] show ?case unfolding kv assign.simps .
qed

lemma assign_present: "m k = Some v \<Longrightarrow> \<exists>y. assign m kvs k = Some y"
  using assign_dom[of k m kvs] by auto

lemma example_gateway_token: "g_token example_gateway = None"
  by (simp add: example_gateway_def)

lemma create_args_sample:
  "createDocumentArgs example_gateway (document_body ''cproject1'' ''Notes'') =
     Inr \<lparr>ca_projectId = ''cproject1'', ca_kind = ''FREEFORM'', ca_title = ''Notes'',
          ca_content = ''text'', ca_slug = None, ca_requestId = None, ca_idempotencyKey = None\<rparr>"
  by (simp add: createDocumentArgs_def document_body_def zod_eval slug_eval)

lemma keyed_args_parse:
  "createDocumentArgs example_gateway keyed_args =
     Inr \<lparr>ca_projectId = ''cproject1'', ca_kind = ''FREEFORM'', ca_title = ''Notes'',
          ca_content = ''text'', ca_slug = None,
          ca_requestId = Some ''7d444840-9dc0-11d1-b245-5ffdce74fad3'',
          ca_idempotencyKey = Some ''key-1''\<rparr>"
  by (simp add: createDocumentArgs_def keyed_args_def zod_eval slug_eval example_gateway_def)

lemma keyed_args_request:
  "handleCreateDocument example_gateway keyed_args =
     Inr (api_request example_gateway ''POST'' ''/documents'' keyed_options)"
  by (simp add: handleCreateDocument_def keyed_args_parse keyed_options_def document_body_def)

text \<open>
  C9, as the code has it. Every request ApiClient.request builds carries X-Request-ID:
  the caller's request id when it is given and not empty, an identifier the gateway
  generates otherwise. X-Idempotency-Key is sent exactly when the caller gave a key that
  is not empty, and is that key; none is generated. create_document passes both on.
  (The conditions on \<open>o_headers\<close> say that the caller's extra headers set neither.)
\<close>

theorem gateway_request_headers:
  "h_headers (api_request G m p opts) ''X-Request-ID'' \<noteq> None \<and>
   (map_of (o_headers opts) ''X-Request-ID'' = None \<longrightarrow>
      h_headers (api_request G m p opts) ''X-Request-ID'' =
        Some (case nonempty (o_requestId opts) of Some r \<Rightarrow> r | None \<Rightarrow> g_randomUUID G)) \<and>
   (map_of (o_headers opts) ''X-Idempotency-Key'' = None \<longrightarrow>
      h_headers (api_request G m p opts) ''X-Idempotency-Key'' = nonempty (o_idempotencyKey opts)) \<and>
   (handleCreateDocument G args = Inr rq \<longrightarrow>
      (\<exists>a. createDocumentArgs G args = Inr a \<and>
         h_headers rq ''X-Request-ID'' =
           Some (case nonempty (ca_requestId a) of Some r \<Rightarrow> r | None \<Rightarrow> g_randomUUID G) \<and>
         h_headers rq ''X-Idempotency-Key'' = nonempty (ca_idempotencyKey a)))"
proof -
  have 1: "h_headers (api_request G m p opts) ''X-Request-ID'' \<noteq> None" for m p opts
    by (auto simp: api_request_def Let_def intro!: assign_present split: option.splits)
  have 2: "map_of (o_headers opts) ''X-Request-ID'' = None \<Longrightarrow>
      h_headers (api_request G m p opts) ''X-Request-ID'' =
        Some (case nonempty (o_requestId opts) of Some r \<Rightarrow> r | None \<Rightarrow> g_randomUUID G)" for m p opts
    by (auto simp: api_request_def Let_def assign_absent split: option.splits)
  have 3: "map_of (o_headers opts) ''X-Idempotency-Key'' = None \<Longrightarrow>
      h_headers (api_request G m p opts) ''X-Idempotency-Key'' = nonempty (o_idempotencyKey opts)" for m p opts
    by (auto simp: api_request_def Let_def assign_absent split: option.splits)
  have 4: "handleCreateDocument G args = Inr rq \<Longrightarrow>
      (\<exists>a. createDocumentArgs G args = Inr a \<and>
         h_headers rq ''X-Request-ID'' =
           Some (case nonempty (ca_requestId a) of Some r \<Rightarrow> r | None \<Rightarrow> g_randomUUID G) \<and>
         h_headers rq ''X-Idempotency-Key'' = nonempty (ca_idempotencyKey a))"
    using 2 3 by (auto simp: handleCreateDocument_def split: sum.splits)
  show ?thesis using 1 2 3 4 by blast
qed


text \<open>The theorem at a create_document call that gives a request id and a key.\<close>

theorem gateway_request_headers_witness:
  "h_headers (api_request example_gateway ''POST'' ''/documents'' keyed_options) ''X-Request-ID'' =
     Some ''7d444840-9dc0-11d1-b245-5ffdce74fad3'' \<and>
   h_headers (api_request example_gateway ''POST'' ''/documents'' keyed_options) ''X-Idempotency-Key'' =
     Some ''key-1'' \<and>
   (\<exists>a. createDocumentArgs example_gateway keyed_args = Inr a \<and> ca_idempotencyKey a = Some ''key-1'')"
  using gateway_request_headers[of example_gateway "''POST''" "''/documents''" keyed_options keyed_args
      "api_request example_gateway ''POST'' ''/documents'' keyed_options"]
    keyed_args_request keyed_args_parse
  by (simp add: keyed_options_def nonempty_def)

text \<open>
  C9 as stated fails: create_document called without an idempotency key sends a POST
  that carries the generated X-Request-ID and no X-Idempotency-Key.
\<close>

theorem create_without_key_counterexample:
  "(\<exists>rq. handleCreateDocument example_gateway (document_body ''cproject1'' ''Notes'') = Inr rq \<and>
      h_method rq = ''POST'' \<and> h_headers rq ''X-Idempotency-Key'' = None \<and>
      h_headers rq ''X-Request-ID'' = Some (g_randomUUID example_gateway))"
  using create_args_sample example_gateway_token
  by (simp add: handleCreateDocument_def api_request_def Let_def nonempty_def)

section \<open>The transactions of the sprint routes\<close>

lemma item_create_ok:
  "item_create P k sid txt chk ord d = Inr (row, d') \<Longrightarrow>
     item_order row = ord \<and> item_sprintId row = sid \<and> item_text row = txt \<and> item_checked row = chk \<and>
     sprintItems d' = sprintItems d @ [row] \<and> sprints d' = sprints d \<and>
     projects d' = projects d \<and> documents d' = documents d \<and> \<not> refuses_item P txt chk ord"
  by (auto simp: item_create_def Let_def split: if_splits)

lemma item_create_refused:
  "refuses_item P txt chk ord \<Longrightarrow> item_create P k sid txt chk ord d = Inl (StoreError P)"
  by (simp add: item_create_def)

lemma create_items_rows:
  "create_items P sid i its d = Inr (rows, d') \<Longrightarrow>
     map item_order rows = map (\<lambda>(k, it). stored_order k it) (enumerate i its) \<and>
     map item_text rows = map si_text its \<and> map item_checked rows = map si_checked its \<and>
     list_all (\<lambda>r. item_sprintId r = sid) rows \<and>
     sprintItems d' = sprintItems d @ rows \<and> sprints d' = sprints d \<and>
     projects d' = projects d \<and> documents d' = documents d"
proof (induction its arbitrary: i d rows d')
  case Nil
  then show ?case by simp
next
  case (Cons it its)
  from Cons.prems obtain row d1 where
    1: "item_create P (Suc i) sid (si_text it) (si_checked it) (stored_order i it) d = Inr (row, d1)"
    by (auto split: sum.splits)
  with Cons.prems obtain rs where
    2: "create_items P sid (Suc i) its d1 = Inr (rs, d')" and 3: "rows = row # rs"
    by (auto split: sum.splits)
  from Cons.IH[OF 2] item_create_ok[OF 1] 3 show ?case by simp
qed

lemma create_items_refused:
  "k < length its \<Longrightarrow>
   refuses_item P (si_text (its ! k)) (si_checked (its ! k)) (stored_order (i + k) (its ! k)) \<Longrightarrow>
   \<exists>e. create_items P sid i its d = Inl e"
proof (induction its arbitrary: i k d)
  case Nil
  then show ?case by simp
next
  case (Cons it its)
  show ?case
  proof (cases k)
    case 0
    with Cons.prems show ?thesis by (simp add: item_create_refused)
  next
    case (Suc k')
    show ?thesis
    proof (cases "item_create P (Suc i) sid (si_text it) (si_checked it) (stored_order i it) d")
      case (Inl e)
      then show ?thesis by simp
    next
      case (Inr x)
      obtain row d1 where x: "x = (row, d1)" by (cases x)
      have "\<exists>e. create_items P sid (Suc i) its d1 = Inl e"
        using Cons.IH[of k' "Suc i" d1] Cons.prems Suc by simp
      then show ?thesis using Inr x by auto
    qed
  qed
qed

lemma item_create_error:
  "item_create P k sid txt chk ord d = Inl e \<Longrightarrow> (case e of ZodError _ \<Rightarrow> False | _ \<Rightarrow> True)"
  by (auto simp: item_create_def StoreError_def Let_def split: if_splits)

lemma create_items_error:
  "create_items P sid i its d = Inl e \<Longrightarrow> (case e of ZodError _ \<Rightarrow> False | _ \<Rightarrow> True)"
proof (induction its arbitrary: i d)
  case Nil
  then show ?case by simp
next
  case (Cons it its)
  then show ?case
    by (auto split: sum.splits prod.splits dest: item_create_error)
qed

lemma date_arg_error:
  "date_arg P v = Inl e \<Longrightarrow> e = StoreError P"
  by (auto simp: date_arg_def split: option.splits)

lemma sprint_update_error:
  "sprint_update P i ch d = Inl e \<Longrightarrow> (case e of ZodError _ \<Rightarrow> False | _ \<Rightarrow> True)"
  by (auto simp: sprint_update_def StoreError_def Let_def split: option.splits sum.splits if_splits)

lemma sprint_create_error:
  "sprint_create P pid c nm st sd ed d = Inl e \<Longrightarrow> (case e of ZodError _ \<Rightarrow> False | _ \<Rightarrow> True)"
  by (auto simp: sprint_create_def StoreError_def Let_def split: option.splits sum.splits if_splits)

lemma update_sprint_tx_error:
  "update_sprint_tx P i u ex d = Inl e \<Longrightarrow> (case e of ZodError _ \<Rightarrow> False | _ \<Rightarrow> True)"
  by (auto simp: update_sprint_tx_def split: sum.splits option.splits prod.splits
      dest: sprint_update_error create_items_error)

lemma create_sprint_tx_error:
  "create_sprint_tx P data d = Inl e \<Longrightarrow> (case e of ZodError _ \<Rightarrow> False | _ \<Rightarrow> True)"
  by (auto simp: create_sprint_tx_def split: sum.splits option.splits prod.splits if_splits
      dest: sprint_create_error create_items_error)

lemma status_sprint_catch_store:
  "(case e of ZodError _ \<Rightarrow> False | _ \<Rightarrow> True) \<Longrightarrow> status (sprint_catch a b e req) = 500"
  by (simp add: sprint_catch_def route_problem_def split: error.splits)

lemma transaction_rollback: "f d = Inl e \<Longrightarrow> transaction f d = (Inl e, d)"
  by (simp add: transaction_def)

lemma transaction_commit: "f d = Inr (x, d') \<Longrightarrow> transaction f d = (Inr x, d')"
  by (simp add: transaction_def)

lemma status_sprint_catch: "status (sprint_catch a b e req) = (case e of ZodError _ \<Rightarrow> 422 | _ \<Rightarrow> 500)"
  by (simp add: sprint_catch_def route_problem_def split: error.splits)

lemma status_route_problem: "status (route_problem st ty ti de rid ex) = st"
  by (simp add: route_problem_def)

lemma status_date_problem: "status (date_problem req) = 422"
  by (simp add: date_problem_def route_problem_def)

lemma status_ok: "status (ok st b) = st" "body (ok st b) = b"
  by (simp_all add: ok_def)

text \<open>Either the transaction of a handler commits and the answer is its result, or the store is left as it was.\<close>

lemma patch_sprints_cases:
  assumes "UpdateSprintSchema P (r_body req) = Inr u"
  shows "(\<exists>row rows d'. update_sprint_tx P (r_params_id req) u (items_of d (r_params_id req)) d = Inr ((row, rows), d') \<and>
            patch_sprints P req d = (ok 200 (SprintBody row rows), d')) \<or>
         (snd (patch_sprints P req d) = d \<and> status (fst (patch_sprints P req d)) \<in> {404, 409, 422, 500})"
proof (cases "sprint_by_id d (r_params_id req)")
  case None
  then show ?thesis using assms by (simp add: patch_sprints_def Let_def status_route_problem)
next
  case (Some existing)
  show ?thesis
  proof (cases "code_conflict d existing (us_code u)")
    case True
    then show ?thesis using assms Some by (simp add: patch_sprints_def Let_def status_route_problem)
  next
    case nc: False
    show ?thesis
    proof (cases "end_not_after_start (mixed_date P (us_startDate u) (spr_startDate existing))
                    (mixed_date P (us_endDate u) (spr_endDate existing))")
      case True
      then show ?thesis using assms Some nc by (simp add: patch_sprints_def Let_def status_date_problem)
    next
      case nd: False
      show ?thesis
      proof (cases "update_sprint_tx P (r_params_id req) u (items_of d (r_params_id req)) d")
        case (Inl e)
        from update_sprint_tx_error[OF Inl] show ?thesis using assms Some nc nd Inl
          by (simp add: patch_sprints_def Let_def transaction_rollback status_sprint_catch_store)
      next
        case (Inr x)
        obtain row rows d' where x: "x = ((row, rows), d')" by (cases x) auto
        show ?thesis using assms Some nc nd Inr x
          by (simp add: patch_sprints_def Let_def transaction_commit)
      qed
    qed
  qed
qed


lemma post_sprints_cases:
  assumes "CreateSprintSchema P (r_body req) = Inr data"
  shows "(\<exists>row rows d'. create_sprint_tx P data d = Inr ((row, rows), d') \<and>
            post_sprints P req d = (ok 201 (SprintBody row rows), d')) \<or>
         (snd (post_sprints P req d) = d \<and> status (fst (post_sprints P req d)) \<in> {404, 409, 422, 500})"
proof (cases "create_sprint_tx P data d")
  case (Inl e)
  from create_sprint_tx_error[OF Inl] show ?thesis using assms Inl
    by (simp add: post_sprints_def Let_def transaction_rollback status_sprint_catch_store
        status_route_problem status_date_problem)
next
  case (Inr x)
  obtain row rows d' where x: "x = ((row, rows), d')" by (cases x) auto
  show ?thesis using assms Inr x
    by (simp add: post_sprints_def Let_def transaction_commit status_route_problem status_date_problem)
qed

text \<open>
  C3. A sprint update that carries an items array runs the update of the sprint's
  fields, the deletion of its items and the inserts of the new ones in one transaction.
  If the store refuses any insert, the store is left as it was before the request, the
  field updates included, and the request fails. Whenever the request is not answered
  200 the store is unchanged; when it is, the sprint's items are exactly the new rows,
  in the order of the array, and the sprint is the updated row.
\<close>

theorem sprint_update_is_atomic:
  assumes "UpdateSprintSchema P (r_body req) = Inr u" and "us_items u = Some its"
  shows "((\<exists>k < length its. refuses_item P (si_text (its ! k)) (si_checked (its ! k))
              (stored_order k (its ! k))) \<longrightarrow>
            snd (patch_sprints P req d) = d \<and>
            status (fst (patch_sprints P req d)) \<in> {404, 409, 422, 500}) \<and>
         (status (fst (patch_sprints P req d)) \<noteq> 200 \<longrightarrow> snd (patch_sprints P req d) = d) \<and>
         (status (fst (patch_sprints P req d)) = 200 \<longrightarrow>
            (\<exists>row rows. body (fst (patch_sprints P req d)) = SprintBody row rows \<and>
               items_of (snd (patch_sprints P req d)) (r_params_id req) = rows \<and>
               map item_text rows = map si_text its \<and>
               sprint_by_id (snd (patch_sprints P req d)) (r_params_id req) = Some row))"
proof -
  let ?i = "r_params_id req"
  let ?tx = "update_sprint_tx P ?i u (items_of d ?i) d"
  have refused: "\<exists>e. ?tx = Inl e"
    if "\<exists>k < length its. refuses_item P (si_text (its ! k)) (si_checked (its ! k))
              (stored_order k (its ! k))"
  proof -
    from that obtain k where k0: "k < length its"
      "refuses_item P (si_text (its ! k)) (si_checked (its ! k)) (stored_order k (its ! k))" by blast
    then have k: "k < length its"
      "refuses_item P (si_text (its ! k)) (si_checked (its ! k)) (stored_order (0 + k) (its ! k))"
      by simp_all
    show ?thesis
    proof (cases "sprint_update P ?i (update_changes u) d")
      case (Inl e)
      then show ?thesis by (simp add: update_sprint_tx_def)
    next
      case (Inr x)
      obtain row d1 where x: "x = (row, d1)" by (cases x)
      from create_items_refused[OF k, of ?i "item_deleteMany ?i d1"]
      show ?thesis using Inr x assms(2) by (auto simp: update_sprint_tx_def)
    qed
  qed
  from patch_sprints_cases[OF assms(1), of d]
  show ?thesis
  proof
    assume "\<exists>row rows d'. ?tx = Inr ((row, rows), d') \<and>
              patch_sprints P req d = (ok 200 (SprintBody row rows), d')"
    then obtain row rows d' where tx: "?tx = Inr ((row, rows), d')"
      and r: "patch_sprints P req d = (ok 200 (SprintBody row rows), d')" by blast
    from tx obtain d1 where up: "sprint_update P ?i (update_changes u) d = Inr (row, d1)"
      and ci: "create_items P ?i 0 its (item_deleteMany ?i d1) = Inr (rows, d')"
      using assms(2) by (auto simp: update_sprint_tx_def split: sum.splits prod.splits)
    from create_items_rows[OF ci]
    have rows: "map item_text rows = map si_text its" "list_all (\<lambda>r. item_sprintId r = ?i) rows"
      "sprintItems d' = sprintItems (item_deleteMany ?i d1) @ rows" "sprints d' = sprints (item_deleteMany ?i d1)"
      by auto
    have items: "items_of d' ?i = rows"
      using rows(2,3) by (induction rows) (auto simp: items_of_def item_deleteMany_def list_all_iff filter_id_conv)
    have sp: "sprint_by_id d' ?i = Some row"
      using up rows(4)
      by (auto simp: sprint_by_id_def sprint_update_def item_deleteMany_def Let_def find_Some_iff
          split: option.splits sum.splits if_splits)
    show ?thesis using refused tx r items sp rows(1) by (auto simp: status_ok)
  next
    assume "snd (patch_sprints P req d) = d \<and> status (fst (patch_sprints P req d)) \<in> {404, 409, 422, 500}"
    then show ?thesis by auto
  qed
qed


section \<open>The dates of a sprint\<close>

text \<open>
  C5. On create, a start date at or after the end date, both accepted by the schema,
  always fails and stores nothing; once the project exists and the code is free the
  failure is the 422 \<open>Validation Failed\<close>. On update the check compares, for each of
  the two dates, the new value when one is supplied and the stored value otherwise, and
  a violation is answered with the same 422 before anything is written.
\<close>

theorem sprint_dates_checked:
  "(CreateSprintSchema P (r_body req) = Inr data \<longrightarrow> cs_startDate data = Some s \<longrightarrow>
    cs_endDate data = Some e \<longrightarrow> s \<noteq> [] \<longrightarrow> e \<noteq> [] \<longrightarrow>
    js_Date P s = Some ts \<longrightarrow> js_Date P e = Some te \<longrightarrow> te \<le> ts \<longrightarrow>
      snd (post_sprints P req d) = d \<and> status (fst (post_sprints P req d)) \<in> {404, 409, 422} \<and>
      (project_findUnique d (cs_projectId data) \<noteq> None \<longrightarrow>
       sprint_by_code d (cs_projectId data) (cs_code data) = None \<longrightarrow>
         fst (post_sprints P req d) = date_problem req)) \<and>
   (UpdateSprintSchema P (r_body req) = Inr u \<longrightarrow>
    sprint_by_id d (r_params_id req) = Some existing \<longrightarrow> \<not> code_conflict d existing (us_code u) \<longrightarrow>
    (case us_startDate u of Some s \<Rightarrow> s \<noteq> [] \<and> js_Date P s = Some ts
                          | None \<Rightarrow> spr_startDate existing = Some ts) \<longrightarrow>
    (case us_endDate u of Some e \<Rightarrow> e \<noteq> [] \<and> js_Date P e = Some te
                        | None \<Rightarrow> spr_endDate existing = Some te) \<longrightarrow>
    te \<le> ts \<longrightarrow>
      patch_sprints P req d = (date_problem req, d)) \<and>
   status (date_problem req) = 422 \<and>
   (\<exists>pd. body (date_problem req) = Problem pd \<and> pd_title pd = ''Validation Failed'' \<and>
      pd_detail pd = ''End date must be after start date'')"
proof (intro conjI impI)
  assume a: "CreateSprintSchema P (r_body req) = Inr data" "cs_startDate data = Some s"
    "cs_endDate data = Some e" "s \<noteq> []" "e \<noteq> []" "js_Date P s = Some ts" "js_Date P e = Some te" "te \<le> ts"
  then show "snd (post_sprints P req d) = d"
    by (simp add: post_sprints_def Let_def nonempty_def end_not_after_start_def)
  from a show "status (fst (post_sprints P req d)) \<in> {404, 409, 422}"
    by (simp add: post_sprints_def Let_def nonempty_def end_not_after_start_def status_route_problem
        status_date_problem)
  assume "project_findUnique d (cs_projectId data) \<noteq> None"
    and nc: "sprint_by_code d (cs_projectId data) (cs_code data) = None"
  then obtain y where "project_findUnique d (cs_projectId data) = Some y" by auto
  with a nc show "fst (post_sprints P req d) = date_problem req"
    by (simp add: post_sprints_def Let_def nonempty_def end_not_after_start_def)
next
  assume a: "UpdateSprintSchema P (r_body req) = Inr u" "sprint_by_id d (r_params_id req) = Some existing"
    "\<not> code_conflict d existing (us_code u)"
    "case us_startDate u of Some s \<Rightarrow> s \<noteq> [] \<and> js_Date P s = Some ts
                          | None \<Rightarrow> spr_startDate existing = Some ts"
    "case us_endDate u of Some e \<Rightarrow> e \<noteq> [] \<and> js_Date P e = Some te
                        | None \<Rightarrow> spr_endDate existing = Some te"
    "te \<le> ts"
  have "mixed_date P (us_startDate u) (spr_startDate existing) = Some ts"
    using a(4) by (auto simp: mixed_date_def nonempty_def split: option.splits)
  moreover have "mixed_date P (us_endDate u) (spr_endDate existing) = Some te"
    using a(5) by (auto simp: mixed_date_def nonempty_def split: option.splits)
  ultimately show "patch_sprints P req d = (date_problem req, d)"
    using a by (simp add: patch_sprints_def Let_def end_not_after_start_def)
next
  show "status (date_problem req) = 422" by (rule status_date_problem)
  show "\<exists>pd. body (date_problem req) = Problem pd \<and> pd_title pd = ''Validation Failed'' \<and>
      pd_detail pd = ''End date must be after start date''"
    by (simp add: date_problem_def route_problem_def)
qed

section \<open>The order of sprint items\<close>

lemma item_default_order:
  "SprintItemSchema v = Inr it \<Longrightarrow> field ''order'' v = Undefined \<Longrightarrow> si_order it = 0"
  by (auto simp: SprintItemSchema_def z_default_def at_path_def split: if_splits sum.splits)

text \<open>
  C10. On create and on update with an items array, the item at position \<open>k\<close> of the
  array is stored with the order \<open>k\<close> when its order is 0 and with its own order
  otherwise; an item submitted without an order has the order 0 after validation, so an
  absent order and an explicit 0 are both replaced by the position.
\<close>

theorem item_order_from_position:
  "(CreateSprintSchema P (r_body req) = Inr data \<longrightarrow> status (fst (post_sprints P req d)) = 201 \<longrightarrow>
      (\<exists>row rows. body (fst (post_sprints P req d)) = SprintBody row rows \<and>
         map item_order rows =
           map (\<lambda>(k, it). if si_order it = 0 then int k else si_order it) (enumerate 0 (cs_items data)) \<and>
         sprintItems (snd (post_sprints P req d)) = sprintItems d @ rows)) \<and>
   (UpdateSprintSchema P (r_body req) = Inr u \<longrightarrow> us_items u = Some its \<longrightarrow>
    status (fst (patch_sprints P req d)) = 200 \<longrightarrow>
      (\<exists>row rows. body (fst (patch_sprints P req d)) = SprintBody row rows \<and>
         map item_order rows =
           map (\<lambda>(k, it). if si_order it = 0 then int k else si_order it) (enumerate 0 its) \<and>
         items_of (snd (patch_sprints P req d)) (r_params_id req) = rows)) \<and>
   (SprintItemSchema v = Inr it \<longrightarrow> field ''order'' v = Undefined \<longrightarrow> si_order it = 0)"
proof (intro conjI impI)
  assume p: "CreateSprintSchema P (r_body req) = Inr data" and st: "status (fst (post_sprints P req d)) = 201"
  from post_sprints_cases[OF p, of d] st
  obtain row rows d' where tx: "create_sprint_tx P data d = Inr ((row, rows), d')"
    and r: "post_sprints P req d = (ok 201 (SprintBody row rows), d')" by auto
  from tx obtain d1 where sc: "sprint_create P (cs_projectId data) (cs_code data) (cs_name data)
        (cs_status data) (cs_startDate data) (cs_endDate data) d = Inr (row, d1)"
    and ci: "(if cs_items data \<noteq> [] then create_items P (spr_id row) 0 (cs_items data) d1
              else Inr ([], d1)) = Inr (rows, d')"
    by (auto simp: create_sprint_tx_def split: sum.splits prod.splits)
  have d1: "sprintItems d1 = sprintItems d"
    using sc by (auto simp: sprint_create_def Let_def split: sum.splits if_splits)
  have "map item_order rows = map (\<lambda>(k, it). stored_order k it) (enumerate 0 (cs_items data)) \<and>
        sprintItems d' = sprintItems d1 @ rows"
  proof (cases "cs_items data = []")
    case True
    then show ?thesis using ci by simp
  next
    case False
    then show ?thesis using ci create_items_rows[of P "spr_id row" 0 "cs_items data" d1 rows d'] by simp
  qed
  then show "\<exists>row rows. body (fst (post_sprints P req d)) = SprintBody row rows \<and>
         map item_order rows =
           map (\<lambda>(k, it). if si_order it = 0 then int k else si_order it) (enumerate 0 (cs_items data)) \<and>
         sprintItems (snd (post_sprints P req d)) = sprintItems d @ rows"
    using r d1 by (simp add: status_ok stored_order_def)
next
  assume p: "UpdateSprintSchema P (r_body req) = Inr u" and its: "us_items u = Some its"
    and st: "status (fst (patch_sprints P req d)) = 200"
  let ?i = "r_params_id req"
  from patch_sprints_cases[OF p, of d] st
  obtain row rows d' where tx: "update_sprint_tx P ?i u (items_of d ?i) d = Inr ((row, rows), d')"
    and r: "patch_sprints P req d = (ok 200 (SprintBody row rows), d')" by auto
  from tx obtain d1 where ci: "create_items P ?i 0 its (item_deleteMany ?i d1) = Inr (rows, d')"
    using its by (auto simp: update_sprint_tx_def split: sum.splits prod.splits)
  from create_items_rows[OF ci]
  have rows: "map item_order rows = map (\<lambda>(k, it). stored_order k it) (enumerate 0 its)"
    "list_all (\<lambda>r. item_sprintId r = ?i) rows"
    "sprintItems d' = sprintItems (item_deleteMany ?i d1) @ rows"
    by auto
  have items: "items_of d' ?i = rows"
    using rows(2,3) by (induction rows) (auto simp: items_of_def item_deleteMany_def list_all_iff filter_id_conv)
  show "\<exists>row rows. body (fst (patch_sprints P req d)) = SprintBody row rows \<and>
         map item_order rows =
           map (\<lambda>(k, it). if si_order it = 0 then int k else si_order it) (enumerate 0 its) \<and>
         items_of (snd (patch_sprints P req d)) (r_params_id req) = rows"
    using r rows(1) items by (simp add: status_ok stored_order_def)
next
  assume "SprintItemSchema v = Inr it" "field ''order'' v = Undefined"
  then show "si_order it = 0" by (rule item_default_order)
qed

section \<open>Paging of the sprint list\<close>

lemma order_by_length: "length (order_by key dir xs) = length xs"
  by (simp add: order_by_def)

text \<open>In both directions rows with equal keys keep their table order.\<close>

lemma order_by_ties:
  "filter (\<lambda>x. key x = k) (order_by key dir xs) = filter (\<lambda>x. key x = k) xs"
  by (simp add: order_by_def sort_key_stable flip: rev_filter)

lemma order_sprints_length: "order_sprints f dir xs = Some ys \<Longrightarrow> length ys = length xs"
  by (auto simp: order_sprints_def order_by_length split: if_splits)

lemma as_nat_Fin: "as_nat n = Some k \<Longrightarrow> \<exists>r. n = Fin r \<and> 0 \<le> r \<and> k = nat \<lfloor>r\<rfloor>"
  by (auto simp: as_nat_def split: jsnum.splits if_splits)

lemma sprint_query_bounds:
  assumes "ListSprintsQuerySchema P q = Inr lq"
  shows "\<not> jsnum_less (lq_limit lq) 1 \<and> \<not> jsnum_greater (lq_limit lq) 100 \<and>
         \<not> jsnum_less (lq_offset lq) 0 \<and> lq_limit lq \<noteq> NaN \<and> lq_offset lq \<noteq> NaN \<and>
         (case q ''limit'' of None \<Rightarrow> lq_limit lq = Fin 20 | Some s \<Rightarrow> lq_limit lq = js_Number P s) \<and>
         (case q ''offset'' of None \<Rightarrow> lq_offset lq = Fin 0 | Some s \<Rightarrow> lq_offset lq = js_Number P s)"
proof -
  from assms obtain l off where
    l: "(case q ''limit'' of None \<Rightarrow> Inr (Fin 20) | Some s \<Rightarrow> z_coerce_number P 1 (Some 100) s) = Inr l"
    and o: "(case q ''offset'' of None \<Rightarrow> Inr (Fin 0) | Some s \<Rightarrow> z_coerce_number P 0 None s) = Inr off"
    and lq: "lq_limit lq = l" "lq_offset lq = off"
    by (auto simp: ListSprintsQuerySchema_def at_path_def split: sum.splits)
  have cn: "z_coerce_number P lo hi s = Inr x \<Longrightarrow>
      x = js_Number P s \<and> x \<noteq> NaN \<and> \<not> jsnum_less x lo \<and> (case hi of Some h \<Rightarrow> \<not> jsnum_greater x h | None \<Rightarrow> True)"
    for lo hi s x
    by (auto simp: z_coerce_number_def Let_def split: if_splits option.splits list.splits)
  have L: "\<not> jsnum_less l 1 \<and> \<not> jsnum_greater l 100 \<and> l \<noteq> NaN \<and>
           (case q ''limit'' of None \<Rightarrow> l = Fin 20 | Some s \<Rightarrow> l = js_Number P s)"
  proof (cases "q ''limit''")
    case None
    with l show ?thesis by (auto simp: jsnum_less_def jsnum_greater_def)
  next
    case (Some s)
    with l cn[of 1 "Some 100" s l] show ?thesis by auto
  qed
  have F: "\<not> jsnum_less off 0 \<and> off \<noteq> NaN \<and>
           (case q ''offset'' of None \<Rightarrow> off = Fin 0 | Some s \<Rightarrow> off = js_Number P s)"
  proof (cases "q ''offset''")
    case None
    with o show ?thesis by (auto simp: jsnum_less_def)
  next
    case (Some s)
    with o cn[of 0 None s off] show ?thesis by auto
  qed
  show ?thesis using L F lq by (auto split: option.splits)
qed

text \<open>The sprint list answers 200 only to a limit within 1 to 100 and an offset of at least 0.\<close>

lemma sprint_list_rejects:
  assumes "status (fst (get_sprints P req d)) = 200"
  shows "(case r_query req ''limit'' of None \<Rightarrow> True
          | Some s \<Rightarrow> \<not> jsnum_less (js_Number P s) 1 \<and> \<not> jsnum_greater (js_Number P s) 100) \<and>
         (case r_query req ''offset'' of None \<Rightarrow> True | Some s \<Rightarrow> \<not> jsnum_less (js_Number P s) 0)"
proof (cases "ListSprintsQuerySchema P (r_query req)")
  case (Inl a)
  then show ?thesis using assms by (simp add: get_sprints_def Let_def status_sprint_catch)
next
  case (Inr lq)
  from sprint_query_bounds[OF Inr] show ?thesis by (auto split: option.splits)
qed

text \<open>
  A sprint list reports the count of all matching sprints, and its page holds
  \<open>min limit (total - offset)\<close> entries, limit and offset taken by their whole parts.
\<close>

lemma sprint_list_page:
  assumes "ListSprintsQuerySchema P (r_query req) = Inr q" and "get_sprints P req d = (r, d')"
    and "body r = SprintList page n lm off"
  shows "d' = d \<and> n = sprint_count (nonempty (lq_projectId q)) (nonempty (lq_status q)) d \<and>
         lm = lq_limit q \<and> off = lq_offset q \<and>
         (\<exists>rl rk. lm = Fin rl \<and> off = Fin rk \<and> 1 \<le> rl \<and> rl \<le> 100 \<and> 0 \<le> rk \<and>
            length page = min (nat \<lfloor>rl\<rfloor>) (n - nat \<lfloor>rk\<rfloor>))"
proof (cases "sprint_findMany P (nonempty (lq_projectId q)) (nonempty (lq_status q)) (lq_sortBy q)
                (lq_sortOrder q) (lq_limit q) (lq_offset q) d")
  case (Inl e)
  then show ?thesis using assms
    by (auto simp: get_sprints_def Let_def sprint_catch_def route_problem_def split: error.splits)
next
  case (Inr rows)
  then obtain l k ys where lk: "as_nat (lq_limit q) = Some l" "as_nat (lq_offset q) = Some k"
    and ys: "order_sprints (lq_sortBy q) (lq_sortOrder q)
               (filter (sprint_where (nonempty (lq_projectId q)) (nonempty (lq_status q))) (sprints d)) = Some ys"
    and rows: "rows = take l (drop k ys)"
    by (auto simp: sprint_findMany_def split: option.splits)
  from as_nat_Fin[OF lk(1)] obtain rl where rl: "lq_limit q = Fin rl" "l = nat \<lfloor>rl\<rfloor>" by blast
  from as_nat_Fin[OF lk(2)] obtain rk where rk: "lq_offset q = Fin rk" "0 \<le> rk" "k = nat \<lfloor>rk\<rfloor>"
    by blast
  have len: "length ys = sprint_count (nonempty (lq_projectId q)) (nonempty (lq_status q)) d"
    using order_sprints_length[OF ys] by (simp add: sprint_count_def)
  have r: "r = ok 200 (SprintList (map (sprint_entry_of d) rows)
              (sprint_count (nonempty (lq_projectId q)) (nonempty (lq_status q)) d) (lq_limit q) (lq_offset q))"
    "d' = d"
    using assms(1,2) Inr by (auto simp: get_sprints_def Let_def)
  have b: "1 \<le> rl \<and> rl \<le> 100"
    using sprint_query_bounds[OF assms(1)] rl(1)
    by (auto simp: jsnum_less_def jsnum_greater_def)
  have page: "page = map (sprint_entry_of d) rows"
    "n = sprint_count (nonempty (lq_projectId q)) (nonempty (lq_status q)) d"
    "lm = lq_limit q" "off = lq_offset q"
    using r assms(3) by (auto simp: status_ok)
  have "lm = Fin rl \<and> off = Fin rk \<and> 1 \<le> rl \<and> rl \<le> 100 \<and> 0 \<le> rk \<and>
        length page = min (nat \<lfloor>rl\<rfloor>) (n - nat \<lfloor>rk\<rfloor>)"
    using page rows len rl rk b by (simp add: min.commute)
  then have "\<exists>rl rk. lm = Fin rl \<and> off = Fin rk \<and> 1 \<le> rl \<and> rl \<le> 100 \<and> 0 \<le> rk \<and>
        length page = min (nat \<lfloor>rl\<rfloor>) (n - nat \<lfloor>rk\<rfloor>)" by blast
  then show ?thesis using r(2) page by simp
qed

section \<open>The sprint theorems at the sample requests\<close>

lemmas request_eval = example_request_def create_sprint_request_def backwards_sprint_request_def
  replace_items_request_def overflow_request_def late_start_request_def three_items_def

lemmas input_eval = three_inputs_def overflow_inputs_def created_sprint_input_def
  backwards_sprint_input_def renamed_input_def late_start_input_def

lemma overflow_parse:
  "UpdateSprintSchema example_platform (r_body overflow_request) = Inr (renamed_input overflow_inputs)"
  by (simp add: UpdateSprintSchema_def SprintItemSchema_def request_eval zod_eval input_eval)

lemma replace_parse:
  "UpdateSprintSchema example_platform (r_body replace_items_request) = Inr (renamed_input three_inputs)"
  by (simp add: UpdateSprintSchema_def SprintItemSchema_def request_eval zod_eval input_eval)

lemma late_start_parse:
  "UpdateSprintSchema example_platform (r_body late_start_request) = Inr late_start_input"
  by (simp add: UpdateSprintSchema_def SprintItemSchema_def request_eval zod_eval example_platform_def sample_date_def
      input_eval)

lemma create_parse:
  "CreateSprintSchema example_platform (r_body create_sprint_request) = Inr created_sprint_input"
  by (simp add: CreateSprintSchema_def SprintItemSchema_def request_eval zod_eval slug_eval input_eval)

lemma backwards_parse:
  "CreateSprintSchema example_platform (r_body backwards_sprint_request) = Inr backwards_sprint_input"
  by (simp add: CreateSprintSchema_def SprintItemSchema_def request_eval zod_eval slug_eval
      example_platform_def sample_date_def input_eval)

lemmas store_eval = example_db_def example_sprint_db_def example_project_def example_sprint_def
  example_item_def project_findUnique_def sprint_by_id_def sprint_by_code_def items_of_def
  sprint_create_def sprint_update_def item_create_def item_deleteMany_def date_arg_def
  date_change_def transaction_def nonempty_def stored_order_def

lemma replace_status:
  "status (fst (patch_sprints example_platform replace_items_request example_sprint_db)) = 200"
  using replace_parse
  by (simp add: patch_sprints_def Let_def code_conflict_def end_not_after_start_def mixed_date_def
      update_sprint_tx_def update_changes_def store_eval ok_def example_platform_def sample_date_def
      replace_items_request_def example_request_def input_eval)

lemma create_status:
  "status (fst (post_sprints example_platform create_sprint_request example_db)) = 201"
  using create_parse
  by (simp add: post_sprints_def Let_def end_not_after_start_def create_sprint_tx_def store_eval
      ok_def example_platform_def sample_date_def create_sprint_request_def example_request_def input_eval)

lemma overflow_refused:
  "\<exists>k < length overflow_inputs.
     refuses_item example_platform (si_text (overflow_inputs ! k)) (si_checked (overflow_inputs ! k))
       (stored_order k (overflow_inputs ! k))"
  by (rule exI[of _ 1]) (simp add: example_platform_def sample_date_def stored_order_def overflow_inputs_def)

lemma renamed_items: "us_items (renamed_input its) = Some its"
  by (simp add: renamed_input_def)

lemma patch_target:
  "r_params_id replace_items_request = ''csprint001''" "r_params_id overflow_request = ''csprint001''"
  "r_params_id late_start_request = ''csprint001''"
  by (simp_all add: request_eval)

text \<open>
  The atomicity theorem at two updates of the sample sprint, both renaming it. The first
  carries an item whose order the sample store refuses: nothing changes, the name
  included. The second replaces the one stored item by three.
\<close>

theorem sprint_update_is_atomic_witness:
  "snd (patch_sprints example_platform overflow_request example_sprint_db) = example_sprint_db \<and>
   status (fst (patch_sprints example_platform overflow_request example_sprint_db)) \<in> {404, 409, 422, 500} \<and>
   (\<exists>row rows. body (fst (patch_sprints example_platform replace_items_request example_sprint_db)) =
        SprintBody row rows \<and>
      items_of (snd (patch_sprints example_platform replace_items_request example_sprint_db)) ''csprint001'' = rows \<and>
      map item_text rows = [''a'', ''b'', ''c''])"
proof -
  note T1 = sprint_update_is_atomic[OF overflow_parse renamed_items, where d = example_sprint_db]
  note T2 = sprint_update_is_atomic[OF replace_parse renamed_items, where d = example_sprint_db]
  have 1: "snd (patch_sprints example_platform overflow_request example_sprint_db) = example_sprint_db \<and>
     status (fst (patch_sprints example_platform overflow_request example_sprint_db)) \<in> {404, 409, 422, 500}"
    using T1 overflow_refused by blast
  have "\<exists>row rows. body (fst (patch_sprints example_platform replace_items_request example_sprint_db)) =
        SprintBody row rows \<and>
      items_of (snd (patch_sprints example_platform replace_items_request example_sprint_db))
        (r_params_id replace_items_request) = rows \<and>
      map item_text rows = map si_text three_inputs"
    using T2 replace_status by blast
  then have 2: "\<exists>row rows. body (fst (patch_sprints example_platform replace_items_request example_sprint_db)) =
        SprintBody row rows \<and>
      items_of (snd (patch_sprints example_platform replace_items_request example_sprint_db)) ''csprint001'' = rows \<and>
      map item_text rows = [''a'', ''b'', ''c'']"
    by (simp add: patch_target three_inputs_def)
  from 1 2 show ?thesis by blast
qed

lemma backwards_facts:
  "cs_startDate backwards_sprint_input = Some ''2025-02-01T00:00:00Z''"
  "cs_endDate backwards_sprint_input = Some ''2025-01-01T00:00:00Z''"
  "js_Date example_platform ''2025-02-01T00:00:00Z'' = Some 1738368000000"
  "js_Date example_platform ''2025-01-01T00:00:00Z'' = Some 1735689600000"
  "js_Date example_platform ''2025-03-01T00:00:00Z'' = Some 1740787200000"
  "project_findUnique example_db (cs_projectId backwards_sprint_input) \<noteq> None"
  "sprint_by_code example_db (cs_projectId backwards_sprint_input) (cs_code backwards_sprint_input) = None"
  by (simp_all add: backwards_sprint_input_def example_platform_def sample_date_def store_eval)

lemma late_start_facts:
  "sprint_by_id example_sprint_db (r_params_id late_start_request) = Some example_sprint"
  "\<not> code_conflict example_sprint_db example_sprint (us_code late_start_input)"
  "case us_startDate late_start_input of
     Some s \<Rightarrow> s \<noteq> [] \<and> js_Date example_platform s = Some 1740787200000
   | None \<Rightarrow> spr_startDate example_sprint = Some 1740787200000"
  "case us_endDate late_start_input of
     Some e \<Rightarrow> e \<noteq> [] \<and> js_Date example_platform e = Some 1738368000000
   | None \<Rightarrow> spr_endDate example_sprint = Some 1738368000000"
  by (simp_all add: late_start_input_def example_platform_def sample_date_def store_eval code_conflict_def patch_target)

text \<open>
  The date theorem at a create whose start is a month after its end, and at an update
  that moves the start of the sample sprint a month past its stored end.
\<close>

theorem sprint_dates_checked_witness:
  "fst (post_sprints example_platform backwards_sprint_request example_db) =
     date_problem backwards_sprint_request \<and>
   snd (post_sprints example_platform backwards_sprint_request example_db) = example_db \<and>
   patch_sprints example_platform late_start_request example_sprint_db =
     (date_problem late_start_request, example_sprint_db) \<and>
   status (date_problem late_start_request) = 422"
proof -
  note T1 = sprint_dates_checked[where P = example_platform and req = backwards_sprint_request and
      d = example_db and s = "''2025-02-01T00:00:00Z''" and e = "''2025-01-01T00:00:00Z''" and
      ts = 1738368000000 and te = 1735689600000 and data = backwards_sprint_input]
  note T2 = sprint_dates_checked[where P = example_platform and req = late_start_request and
      d = example_sprint_db and ts = 1740787200000 and te = 1738368000000 and
      existing = example_sprint and u = late_start_input]
  have 1: "fst (post_sprints example_platform backwards_sprint_request example_db) =
     date_problem backwards_sprint_request \<and>
     snd (post_sprints example_platform backwards_sprint_request example_db) = example_db"
    using T1 backwards_parse backwards_facts by simp
  have 2: "patch_sprints example_platform late_start_request example_sprint_db =
     (date_problem late_start_request, example_sprint_db) \<and> status (date_problem late_start_request) = 422"
    using T2 late_start_parse late_start_facts by simp
  from 1 2 show ?thesis by blast
qed

lemma created_items: "cs_items created_sprint_input = three_inputs"
  by (simp add: created_sprint_input_def)

lemma three_orders:
  "map (\<lambda>(k, it). if si_order it = 0 then int k else si_order it) (enumerate 0 three_inputs) = [0, 1, 5]"
  by (simp add: three_inputs_def)

text \<open>
  The order theorem at three items with the orders 0, none and 5, on create and on
  update: the stored orders are 0, 1 and 5.
\<close>

theorem item_order_from_position_witness:
  "(\<exists>row rows. body (fst (post_sprints example_platform create_sprint_request example_db)) =
        SprintBody row rows \<and> map item_order rows = [0, 1, 5]) \<and>
   (\<exists>row rows. body (fst (patch_sprints example_platform replace_items_request example_sprint_db)) =
        SprintBody row rows \<and> map item_order rows = [0, 1, 5])"
proof -
  note T1 = item_order_from_position[where P = example_platform and req = create_sprint_request and
      d = example_db and data = created_sprint_input, THEN conjunct1, rule_format,
      OF create_parse create_status]
  note T2 = item_order_from_position[where P = example_platform and req = replace_items_request and
      d = example_sprint_db and u = "renamed_input three_inputs" and its = three_inputs,
      THEN conjunct2, THEN conjunct1, rule_format, OF replace_parse renamed_items replace_status]
  from T1 obtain row rows where
    "body (fst (post_sprints example_platform create_sprint_request example_db)) = SprintBody row rows"
    "map item_order rows =
       map (\<lambda>(k, it). if si_order it = 0 then int k else si_order it)
         (enumerate 0 (cs_items created_sprint_input))" by blast
  then have 1: "\<exists>row rows. body (fst (post_sprints example_platform create_sprint_request example_db)) =
        SprintBody row rows \<and> map item_order rows = [0, 1, 5]"
    using three_orders by (simp add: created_items)
  from T2 obtain row rows where
    "body (fst (patch_sprints example_platform replace_items_request example_sprint_db)) = SprintBody row rows"
    "map item_order rows =
       map (\<lambda>(k, it). if si_order it = 0 then int k else si_order it) (enumerate 0 three_inputs)"
    by blast
  then have 2: "\<exists>row rows. body (fst (patch_sprints example_platform replace_items_request example_sprint_db)) =
        SprintBody row rows \<and> map item_order rows = [0, 1, 5]"
    using three_orders by simp
  from 1 2 show ?thesis by blast
qed


end
